theory Spec2Isabelle
  imports
    Main
    "HOL-Library.Char_ord"
    "HOL-Library.List_Lexorder"
    "HOL-Library.Multiset"
begin

section \<open>Python values and errors\<close>

text \<open>
  Every \<^verbatim>\<open>raise\<close> and every failed \<^verbatim>\<open>assert\<close> of the source is a value of
  \<open>py_error\<close>; a function that can fail returns \<open>py_error + 'a\<close> with \<open>Inl\<close> the error.
  The exception classes are the ones the source raises: the type algebra raises
  \<^verbatim>\<open>ValueError\<close> for every invalid composition.
\<close>

datatype py_error =
    ValueError
  | AssertionError
  | TypeError
  | AttributeError
  | KeyError
  | PyException

datatype py_value = PyNone | PyBool bool | PyInt int | PyStr string

section \<open>Type algebra (idl\_types.py)\<close>

text \<open>
  One constructor per concrete class. \<open>IdlUnionType\<close> holds \<^verbatim>\<open>member_types\<close>;
  the classes derived from \<^verbatim>\<open>IdlNestedType\<close> with one child hold \<^verbatim>\<open>nested_type\<close>.
  The attribute dictionary of an annotated type is an association list with distinct keys.
\<close>

datatype idl_type =
    IdlType string
  | IdlPromiseType idl_type
  | IdlUnionType "idl_type list"
  | IdlSequenceType idl_type
  | IdlFrozenArrayType idl_type
  | IdlObservableArrayType idl_type
  | IdlRecordType idl_type idl_type
  | IdlNullableType idl_type
  | IdlAnnotatedType idl_type "(string \<times> py_value) list"

definition TYPE_NAMES :: "(string \<times> string) list" where
  "TYPE_NAMES =
    [(''any'', ''Any''),
     (''boolean'', ''Boolean''),
     (''byte'', ''Byte''),
     (''octet'', ''Octet''),
     (''short'', ''Short''),
     (''unsigned short'', ''UnsignedShort''),
     (''long'', ''Long''),
     (''unsigned long'', ''UnsignedLong''),
     (''long long'', ''LongLong''),
     (''unsigned long long'', ''UnsignedLongLong''),
     (''float'', ''Float''),
     (''unrestricted float'', ''UnrestrictedFloat''),
     (''double'', ''Double''),
     (''unrestricted double'', ''UnrestrictedDouble''),
     (''DOMString'', ''String''),
     (''ByteString'', ''ByteString''),
     (''USVString'', ''USVString''),
     (''object'', ''Object'')]"

definition EXTENDED_ATTRIBUTES_APPLICABLE_TO_TYPES :: "string list" where
  "EXTENDED_ATTRIBUTES_APPLICABLE_TO_TYPES =
    [''AllowShared'', ''Clamp'', ''EnforceRange'', ''StringContext'', ''TreatNullAs'']"

text \<open>\<^verbatim>\<open>TYPE_NAMES.get(base_type, base_type)\<close>\<close>

definition type_name :: "string \<Rightarrow> string" where
  "type_name base_type = (case map_of TYPE_NAMES base_type of Some n \<Rightarrow> n | None \<Rightarrow> base_type)"

text \<open>\<^verbatim>\<open>', '.join(names)\<close>\<close>

fun join :: "string \<Rightarrow> string list \<Rightarrow> string" where
  "join sep [] = []"
| "join sep [x] = x"
| "join sep (x # y # ys) = x @ sep @ join sep (y # ys)"

text \<open>The \<^verbatim>\<open>name\<close> property of each class.\<close>

fun name :: "idl_type \<Rightarrow> string" where
  "name (IdlType base_type) = type_name base_type"
| "name (IdlPromiseType t) = ''Promise('' @ join '', '' (map name [t]) @ '')''"
| "name (IdlUnionType ms) = ''Union('' @ join '', '' (map name ms) @ '')''"
| "name (IdlSequenceType e) = ''Sequence('' @ name e @ '')''"
| "name (IdlFrozenArrayType e) = ''FrozenArray('' @ name e @ '')''"
| "name (IdlObservableArrayType e) = ''ObservableArray('' @ name e @ '')''"
| "name (IdlRecordType k v) = ''Record('' @ name k @ '', '' @ name v @ '')''"
| "name (IdlNullableType t) = name t"
| "name (IdlAnnotatedType t a) = name t"

text \<open>
  Equality of two attribute dictionaries: the same keys with the same values. On
  association lists with distinct keys that is equality of the sets of entries.
\<close>

definition dict_eq :: "(string \<times> py_value) list \<Rightarrow> (string \<times> py_value) list \<Rightarrow> bool" where
  "dict_eq a b = (set a = set b)"

text \<open>
  \<^verbatim>\<open>__eq__\<close>, class by class. Each method starts with
  \<^verbatim>\<open>if not isinstance(other, <own class>): return False\<close>; that guard is the
  default branch of the case. The type values are always truthy, so
  \<^verbatim>\<open>other and e\<close> is \<^verbatim>\<open>e\<close>.
\<close>

fun idl_eq :: "idl_type \<Rightarrow> idl_type \<Rightarrow> bool" where
  "idl_eq (IdlType b) u = (case u of IdlType b' \<Rightarrow> b = b' | _ \<Rightarrow> False)"
| "idl_eq (IdlPromiseType t) u =
     (case u of IdlPromiseType t' \<Rightarrow> name (IdlPromiseType t) = name u | _ \<Rightarrow> False)"
| "idl_eq (IdlUnionType ms) u =
     (case u of IdlUnionType ms' \<Rightarrow> name (IdlUnionType ms) = name u | _ \<Rightarrow> False)"
| "idl_eq (IdlSequenceType e) u =
     (case u of IdlSequenceType e' \<Rightarrow> name (IdlSequenceType e) = name u | _ \<Rightarrow> False)"
| "idl_eq (IdlFrozenArrayType e) u =
     (case u of IdlFrozenArrayType e' \<Rightarrow> name (IdlFrozenArrayType e) = name u | _ \<Rightarrow> False)"
| "idl_eq (IdlObservableArrayType e) u =
     (case u of IdlObservableArrayType e' \<Rightarrow> name u = name (IdlObservableArrayType e)
      | _ \<Rightarrow> False)"
| "idl_eq (IdlRecordType k v) u =
     (case u of IdlRecordType k' v' \<Rightarrow> idl_eq k k' \<and> idl_eq v v' | _ \<Rightarrow> False)"
| "idl_eq (IdlNullableType t) u =
     (case u of IdlNullableType t' \<Rightarrow> idl_eq t t' | _ \<Rightarrow> False)"
| "idl_eq (IdlAnnotatedType t a) u =
     (case u of IdlAnnotatedType t' a' \<Rightarrow> idl_eq t t' \<and> dict_eq a a' | _ \<Rightarrow> False)"

text \<open>The concrete class of a value, for \<^verbatim>\<open>isinstance\<close> tests.\<close>

datatype variant =
    VNamed | VPromise | VUnion | VSequence | VFrozenArray | VObservableArray
  | VRecord | VNullable | VAnnotated

fun variant_of :: "idl_type \<Rightarrow> variant" where
  "variant_of (IdlType _) = VNamed"
| "variant_of (IdlPromiseType _) = VPromise"
| "variant_of (IdlUnionType _) = VUnion"
| "variant_of (IdlSequenceType _) = VSequence"
| "variant_of (IdlFrozenArrayType _) = VFrozenArray"
| "variant_of (IdlObservableArrayType _) = VObservableArray"
| "variant_of (IdlRecordType _ _) = VRecord"
| "variant_of (IdlNullableType _) = VNullable"
| "variant_of (IdlAnnotatedType _ _) = VAnnotated"

text \<open>\<^verbatim>\<open>isinstance(t, IdlNestedType)\<close>: every class but \<open>IdlType\<close> and \<open>IdlRecordType\<close>.\<close>

definition is_nested :: "idl_type \<Rightarrow> bool" where
  "is_nested t = (variant_of t \<noteq> VNamed \<and> variant_of t \<noteq> VRecord)"

text \<open>The variants whose \<^verbatim>\<open>__eq__\<close> compares the two names.\<close>

definition name_keyed :: "idl_type \<Rightarrow> bool" where
  "name_keyed t = (variant_of t = VPromise \<or> variant_of t = VUnion \<or> variant_of t = VSequence
     \<or> variant_of t = VFrozenArray \<or> variant_of t = VObservableArray)"

text \<open>\<^verbatim>\<open>IdlNestedType.get_nested_type\<close>: \<^verbatim>\<open>None\<close> for a union.\<close>

fun get_nested_type :: "idl_type \<Rightarrow> idl_type option" where
  "get_nested_type (IdlPromiseType t) = Some t"
| "get_nested_type (IdlSequenceType t) = Some t"
| "get_nested_type (IdlFrozenArrayType t) = Some t"
| "get_nested_type (IdlObservableArrayType t) = Some t"
| "get_nested_type (IdlNullableType t) = Some t"
| "get_nested_type (IdlAnnotatedType t a) = Some t"
| "get_nested_type _ = None"

text \<open>
  \<^verbatim>\<open>IdlUnionType.number_of_nullable_member_types\<close>, as a function of
  \<^verbatim>\<open>member_types\<close>: the loop over the members is the recursion over the list. A
  nullable member counts one and is replaced by its nested type; a union (the member or
  that nested type) adds its own count.
\<close>

fun number_of_nullable_member_types :: "idl_type list \<Rightarrow> nat" where
  "number_of_nullable_member_types [] = 0"
| "number_of_nullable_member_types (m # ms) =
     (case m of
        IdlNullableType n \<Rightarrow>
          1 + (case n of IdlUnionType ns \<Rightarrow> number_of_nullable_member_types ns | _ \<Rightarrow> 0)
      | IdlUnionType ns \<Rightarrow> number_of_nullable_member_types ns
      | _ \<Rightarrow> 0)
     + number_of_nullable_member_types ms"

text \<open>
  \<^verbatim>\<open>IdlNullableType.__init__\<close>. The assertion of \<^verbatim>\<open>IdlNestedType.__init__\<close>
  (\<^verbatim>\<open>nested_type or member_types\<close>) holds for every type value; the four checks follow
  in the order of the source, each raising \<^verbatim>\<open>ValueError\<close>.
\<close>

definition IdlNullableType_init :: "idl_type \<Rightarrow> py_error + idl_type" where
  "IdlNullableType_init nested_type =
     (if name nested_type = ''Any'' then Inl ValueError
      else if variant_of nested_type = VPromise then Inl ValueError
      else if variant_of nested_type = VNullable then Inl ValueError
      else case nested_type of
             IdlUnionType ms \<Rightarrow>
               if number_of_nullable_member_types ms > 0 then Inl ValueError
               else Inr (IdlNullableType nested_type)
           | _ \<Rightarrow> Inr (IdlNullableType nested_type))"

text \<open>
  The nullable-composition rule in the words of the specification: a union contains a
  nullable member when one of its members is nullable, or is a union that contains one.
\<close>

fun contains_nullable_member :: "idl_type list \<Rightarrow> bool" where
  "contains_nullable_member [] = False"
| "contains_nullable_member (m # ms) =
     (variant_of m = VNullable
      \<or> (case m of IdlUnionType ns \<Rightarrow> contains_nullable_member ns | _ \<Rightarrow> False)
      \<or> contains_nullable_member ms)"

text \<open>
  The values whose canonical name is \<open>Any\<close>: the type \<^verbatim>\<open>any\<close>, a nominal type with the
  base name \<open>Any\<close>, and a nullable or annotated type around one of these.
\<close>

fun named_any :: "idl_type \<Rightarrow> bool" where
  "named_any (IdlType b) = (b = ''any'' \<or> b = ''Any'')"
| "named_any (IdlNullableType t) = named_any t"
| "named_any (IdlAnnotatedType t a) = named_any t"
| "named_any _ = False"

text \<open>\<^verbatim>\<open>IdlRecordType.__init__\<close>: the key must not be a nested type.\<close>

definition IdlRecordType_init :: "idl_type \<Rightarrow> idl_type \<Rightarrow> py_error + idl_type" where
  "IdlRecordType_init key_type value_type =
     (if is_nested key_type then Inl AssertionError
      else Inr (IdlRecordType key_type value_type))"

text \<open>\<^verbatim>\<open>IdlAnnotatedType.__init__\<close>\<close>

definition IdlAnnotatedType_init ::
    "idl_type \<Rightarrow> (string \<times> py_value) list \<Rightarrow> py_error + idl_type" where
  "IdlAnnotatedType_init nested_type extended_attributes =
     (if list_ex (\<lambda>key. key \<notin> set EXTENDED_ATTRIBUTES_APPLICABLE_TO_TYPES)
           (map fst extended_attributes)
      then Inl ValueError
      else if ''StringContext'' \<in> set (map fst extended_attributes)
              \<and> name nested_type \<notin> set [''DOMString'', ''USVString'']
      then Inl ValueError
      else Inr (IdlAnnotatedType nested_type extended_attributes))"

subsection \<open>Hashing and the member set of a union\<close>

text \<open>
  \<^verbatim>\<open>set(member_types)\<close> merges two members when their hashes agree and \<^verbatim>\<open>==\<close>
  holds. Python's hash of a string or of a tuple of strings is not fixed by the language
  (string hashing is salted per process), so it is a parameter \<open>H\<close> of the model; every
  result below holds for every \<open>H\<close>. \<open>py_hash\<close> follows the \<^verbatim>\<open>__hash__\<close> methods.
\<close>

datatype hash_input = HStr string | HTuple string string

fun py_hash :: "(hash_input \<Rightarrow> int) \<Rightarrow> idl_type \<Rightarrow> int" where
  "py_hash H (IdlType b) = H (HStr b)"
| "py_hash H (IdlPromiseType t) = H (HStr (name (IdlPromiseType t)))"
| "py_hash H (IdlUnionType ms) = H (HStr (name (IdlUnionType ms)))"
| "py_hash H (IdlSequenceType e) = py_hash H e"
| "py_hash H (IdlFrozenArrayType e) = py_hash H e"
| "py_hash H (IdlObservableArrayType e) = H (HStr (name (IdlObservableArrayType e)))"
| "py_hash H (IdlRecordType k v) = H (HTuple (name k) (name v))"
| "py_hash H (IdlNullableType t) = py_hash H t"
| "py_hash H (IdlAnnotatedType t a) = H (HStr (name (IdlAnnotatedType t a)))"

definition same_entry :: "(hash_input \<Rightarrow> int) \<Rightarrow> idl_type \<Rightarrow> idl_type \<Rightarrow> bool" where
  "same_entry H y x = (py_hash H y = py_hash H x \<and> idl_eq y x)"

text \<open>
  The pair that decides whether two members are merged: the hash and the class of
  \<^verbatim>\<open>==\<close> (used in proofs only).
\<close>

definition entry_key :: "(hash_input \<Rightarrow> int) \<Rightarrow> idl_type \<Rightarrow> int \<times> idl_type set" where
  "entry_key H x = (py_hash H x, {z. idl_eq x z})"

text \<open>
  Adding to a set keeps the element already stored. The members are kept in the order of
  their first insertion; the order in which Python iterates the set is not fixed either,
  and the stable sort by name that follows makes the list of member names independent of
  it (lemma \<open>sorted_member_names\<close>).
\<close>

definition set_add :: "(hash_input \<Rightarrow> int) \<Rightarrow> idl_type list \<Rightarrow> idl_type \<Rightarrow> idl_type list" where
  "set_add H s x = (if list_ex (\<lambda>y. same_entry H y x) s then s else s @ [x])"

definition py_set :: "(hash_input \<Rightarrow> int) \<Rightarrow> idl_type list \<Rightarrow> idl_type list" where
  "py_set H xs = foldl (set_add H) [] xs"

text \<open>
  \<^verbatim>\<open>IdlUnionType.__init__\<close>: \<^verbatim>\<open>IdlNestedType.__init__\<close> receives
  \<^verbatim>\<open>list(set(member_types))\<close> and no nested type, so its assertion fails on an empty
  list; then \<^verbatim>\<open>member_types.sort(key=lambda t: t.name)\<close>, a stable sort.
\<close>

definition IdlUnionType_init :: "(hash_input \<Rightarrow> int) \<Rightarrow> idl_type list \<Rightarrow> py_error + idl_type" where
  "IdlUnionType_init H member_types =
     (let ms = py_set H member_types
      in if ms = [] then Inl AssertionError
         else Inr (IdlUnionType (sort_key name ms)))"

section \<open>Type reductions of the transformer (idlark.py)\<close>

text \<open>
  A reduced child is a type value or a token with its terminal name and value. A
  reduction returns a type value, or (where the source falls through to
  \<^verbatim>\<open>return nodes\<close>) the children themselves.
\<close>

datatype node = TypeNode idl_type | Token string py_value

datatype reduced = RType idl_type | RNodes "node list"

text \<open>The first child that is a type value.\<close>

fun first_type :: "node list \<Rightarrow> idl_type option" where
  "first_type [] = None"
| "first_type (TypeNode t # ns) = Some t"
| "first_type (Token k v # ns) = first_type ns"

text \<open>The last child that is a type value: the loops that overwrite a variable.\<close>

fun last_type :: "idl_type option \<Rightarrow> node list \<Rightarrow> idl_type option" where
  "last_type acc [] = acc"
| "last_type acc (TypeNode t # ns) = last_type (Some t) ns"
| "last_type acc (Token k v # ns) = last_type acc ns"

text \<open>\<^verbatim>\<open>WebIDLTransformer.forzen_array_type\<close>\<close>

definition forzen_array_type :: "node list \<Rightarrow> reduced" where
  "forzen_array_type nodes =
     (case first_type nodes of Some t \<Rightarrow> RType (IdlSequenceType t) | None \<Rightarrow> RNodes nodes)"

text \<open>\<^verbatim>\<open>WebIDLTransformer.observable_array_type\<close>\<close>

definition observable_array_type :: "node list \<Rightarrow> reduced" where
  "observable_array_type nodes =
     (case first_type nodes of
        Some t \<Rightarrow> RType (IdlObservableArrayType t) | None \<Rightarrow> RNodes nodes)"

text \<open>
  \<^verbatim>\<open>WebIDLTransformer.sequence_type\<close>: after the assertion the source calls
  \<^verbatim>\<open>IdlSequenceType(element_type, length)\<close>, two arguments for a constructor that
  takes one, which raises \<^verbatim>\<open>TypeError\<close>.
\<close>

definition sequence_type :: "node list \<Rightarrow> py_error + idl_type" where
  "sequence_type nodes =
     (case last_type None nodes of None \<Rightarrow> Inl AssertionError | Some t \<Rightarrow> Inl TypeError)"


section \<open>Extended attributes (idl\_definitions.py, WithExtendedAttributes)\<close>

text \<open>
  A raw extended-attribute value as the grammar captures it: a boolean, a string, a list
  (of strings, of arguments, or of anything else), a dictionary from an identifier to an
  argument list, or a value of another shape. \<open>'a\<close> is the class of the arguments. A
  dictionary is an association list with distinct keys, in insertion order.
\<close>

datatype 'a raw_value =
    RawBool bool
  | RawStr string
  | RawStrList "string list"
  | RawArgList "'a list"
  | RawOtherList
  | RawDict "(string \<times> 'a list) list"
  | RawOther

text \<open>
  The fields of \<^verbatim>\<open>WithExtendedAttributes\<close>, in the order of \<^verbatim>\<open>__init__\<close>:
  \<^verbatim>\<open>_extended_attributes\<close>, \<^verbatim>\<open>_identifiers\<close>, \<^verbatim>\<open>_extattr_arguments\<close>,
  \<^verbatim>\<open>_named_arguments\<close>, \<^verbatim>\<open>_identifier_pairs\<close>, \<^verbatim>\<open>_identifier_lists\<close>,
  \<^verbatim>\<open>_string_literals\<close>, \<^verbatim>\<open>_string_literal_lists\<close>, \<^verbatim>\<open>_numbers\<close>.
\<close>

datatype 'a ext_store = ExtStore
  (extended_attributes: "(string \<times> 'a raw_value) list")
  (identifiers: "string set")
  (extattr_arguments: "(string \<times> 'a list) list")
  (named_arguments: "(string \<times> string \<times> 'a list) list")
  (identifier_pairs: "(string \<times> string) list")
  (identifier_lists: "(string \<times> string list) list")
  (string_literals: "(string \<times> string) list")
  (string_literal_lists: "(string \<times> string list) list")
  (numbers: "(string \<times> int) list")

text \<open>\<^verbatim>\<open>d[k] = v\<close> on a dictionary: replace in place, or append.\<close>

fun dict_set :: "('k \<times> 'v) list \<Rightarrow> 'k \<Rightarrow> 'v \<Rightarrow> ('k \<times> 'v) list" where
  "dict_set [] k v = [(k, v)]"
| "dict_set ((k', v') # d) k v = (if k' = k then (k, v) # d else (k', v') # dict_set d k v)"

text \<open>\<^verbatim>\<open>d.get(k)\<close> is \<open>map_of d k\<close>; \<^verbatim>\<open>d.get(k, [])\<close>:\<close>

definition dict_get_list :: "('k \<times> 'v list) list \<Rightarrow> 'k \<Rightarrow> 'v list" where
  "dict_get_list d k = (case map_of d k of Some v \<Rightarrow> v | None \<Rightarrow> [])"

definition WithExtendedAttributes_init :: "'a ext_store" where
  "WithExtendedAttributes_init = ExtStore [] {} [] [] [] [] [] [] []"

fun extattr_add_identifier :: "'a ext_store \<Rightarrow> string \<Rightarrow> 'a ext_store" where
  "extattr_add_identifier (ExtStore raw ids args named pairs idlists lits litlists nums) identifier =
     ExtStore raw (insert identifier ids) args named pairs idlists lits litlists nums"

definition extattr_has_identifier :: "'a ext_store \<Rightarrow> string \<Rightarrow> bool" where
  "extattr_has_identifier s identifier = (identifier \<in> identifiers s)"

fun extattr_add_arguments :: "'a ext_store \<Rightarrow> string \<Rightarrow> 'a list \<Rightarrow> 'a ext_store" where
  "extattr_add_arguments (ExtStore raw ids args named pairs idlists lits litlists nums)
       identifier arguments =
     ExtStore raw ids (dict_set args identifier arguments) named pairs idlists lits litlists nums"

definition extattr_get_arguments :: "'a ext_store \<Rightarrow> string \<Rightarrow> 'a list" where
  "extattr_get_arguments s identifier = dict_get_list (extattr_arguments s) identifier"

fun extattr_add_named_arguments ::
    "'a ext_store \<Rightarrow> string \<Rightarrow> string \<Rightarrow> 'a list \<Rightarrow> 'a ext_store" where
  "extattr_add_named_arguments (ExtStore raw ids args named pairs idlists lits litlists nums)
       identifier argument_name arguments =
     ExtStore raw ids args (dict_set named identifier (argument_name, arguments))
       pairs idlists lits litlists nums"

text \<open>
  \<^verbatim>\<open>extattr_get_named_arguments\<close> evaluates \<^verbatim>\<open>self._named_arguments.get(identifier)\<close>
  and has no \<^verbatim>\<open>return\<close>: the value looked up is dropped and the result is
  \<^verbatim>\<open>None\<close>.
\<close>

definition extattr_get_named_arguments ::
    "'a ext_store \<Rightarrow> string \<Rightarrow> (string \<times> 'a list) option" where
  "extattr_get_named_arguments s identifier =
     (let looked_up = map_of (named_arguments s) identifier in None)"

fun extattr_add_identifier_pair :: "'a ext_store \<Rightarrow> string \<Rightarrow> string \<Rightarrow> 'a ext_store" where
  "extattr_add_identifier_pair (ExtStore raw ids args named pairs idlists lits litlists nums)
       key v =
     ExtStore raw ids args named (dict_set pairs key v) idlists lits litlists nums"

definition extattr_get_identifier_value :: "'a ext_store \<Rightarrow> string \<Rightarrow> string option" where
  "extattr_get_identifier_value s identifier_key = map_of (identifier_pairs s) identifier_key"

fun extattr_add_identifier_list ::
    "'a ext_store \<Rightarrow> string \<Rightarrow> string list \<Rightarrow> 'a ext_store" where
  "extattr_add_identifier_list (ExtStore raw ids args named pairs idlists lits litlists nums)
       identifier_key identifier_list =
     ExtStore raw ids args named pairs (dict_set idlists identifier_key identifier_list)
       lits litlists nums"

definition extattr_get_identifier_list :: "'a ext_store \<Rightarrow> string \<Rightarrow> string list" where
  "extattr_get_identifier_list s identifier_key =
     dict_get_list (identifier_lists s) identifier_key"

text \<open>
  \<^verbatim>\<open>extattr_add_string_literal\<close> stores the literal between double quotes unless
  \<^verbatim>\<open>quotes=False\<close>.
\<close>

fun extattr_add_string_literal ::
    "'a ext_store \<Rightarrow> string \<Rightarrow> string \<Rightarrow> bool \<Rightarrow> 'a ext_store" where
  "extattr_add_string_literal (ExtStore raw ids args named pairs idlists lits litlists nums)
       identifier string_literal quotes =
     ExtStore raw ids args named pairs idlists
       (dict_set lits identifier
          (if quotes then [CHR 0x22] @ string_literal @ [CHR 0x22] else string_literal))
       litlists nums"

text \<open>
  \<^verbatim>\<open>extattr_get_string_literal\<close>, like \<^verbatim>\<open>extattr_get_named_arguments\<close>, has no
  \<^verbatim>\<open>return\<close>.
\<close>

definition extattr_get_string_literal :: "'a ext_store \<Rightarrow> string \<Rightarrow> string option" where
  "extattr_get_string_literal s identifier =
     (let looked_up = map_of (string_literals s) identifier in None)"

fun extattr_add_string_literal_list ::
    "'a ext_store \<Rightarrow> string \<Rightarrow> string list \<Rightarrow> 'a ext_store" where
  "extattr_add_string_literal_list (ExtStore raw ids args named pairs idlists lits litlists nums)
       identifier string_literal_list =
     ExtStore raw ids args named pairs idlists lits
       (dict_set litlists identifier string_literal_list) nums"

definition extattr_get_string_literal_list :: "'a ext_store \<Rightarrow> string \<Rightarrow> string list" where
  "extattr_get_string_literal_list s identifier =
     dict_get_list (string_literal_lists s) identifier"

fun extattr_add_number :: "'a ext_store \<Rightarrow> string \<Rightarrow> int \<Rightarrow> 'a ext_store" where
  "extattr_add_number (ExtStore raw ids args named pairs idlists lits litlists nums)
       identifier number =
     ExtStore raw ids args named pairs idlists lits litlists (dict_set nums identifier number)"

definition extattr_get_number :: "'a ext_store \<Rightarrow> string \<Rightarrow> int option" where
  "extattr_get_number s identifier = map_of (numbers s) identifier"

text \<open>\<^verbatim>\<open>v.startswith('"')\<close>\<close>

fun starts_with_quote :: "string \<Rightarrow> bool" where
  "starts_with_quote [] = False"
| "starts_with_quote (c # cs) = (c = CHR 0x22)"

text \<open>
  One round of the loop of \<^verbatim>\<open>__process_extended_attributes\<close>: the entry \<open>(k, v)\<close>
  goes to the bucket its shape selects. An empty list is skipped; a list whose first
  element is neither an argument nor a string falls through both tests and is ignored; a
  dictionary is asserted to have one key; any other shape raises \<^verbatim>\<open>TypeError\<close>.
\<close>

fun process_entry :: "'a ext_store \<Rightarrow> string \<times> 'a raw_value \<Rightarrow> py_error + 'a ext_store" where
  "process_entry s (k, RawArgList v) =
     (if v = [] then Inr s else Inr (extattr_add_arguments s k v))"
| "process_entry s (k, RawStrList v) =
     (case v of
        [] \<Rightarrow> Inr s
      | v0 # _ \<Rightarrow>
          if starts_with_quote v0 then Inr (extattr_add_string_literal_list s k v)
          else Inr (extattr_add_identifier_list s k v))"
| "process_entry s (k, RawOtherList) = Inr s"
| "process_entry s (k, RawBool v) = Inr (extattr_add_identifier s k)"
| "process_entry s (k, RawStr v) =
     (if starts_with_quote v then Inr (extattr_add_string_literal s k v False)
      else Inr (extattr_add_identifier_pair s k v))"
| "process_entry s (k, RawDict v) =
     (case v of
        [(arg_ident, arguments)] \<Rightarrow> Inr (extattr_add_named_arguments s k arg_ident arguments)
      | _ \<Rightarrow> Inl AssertionError)"
| "process_entry s (k, RawOther) = Inl TypeError"

fun process_extended_attributes ::
    "'a ext_store \<Rightarrow> (string \<times> 'a raw_value) list \<Rightarrow> py_error + 'a ext_store" where
  "process_extended_attributes s [] = Inr s"
| "process_extended_attributes s (kv # attrs) =
     (case process_entry s kv of
        Inl e \<Rightarrow> Inl e
      | Inr s' \<Rightarrow> process_extended_attributes s' attrs)"

text \<open>\<^verbatim>\<open>set_extended_attributes\<close>: the raw dictionary is stored, then processed.\<close>

fun set_extended_attributes ::
    "'a ext_store \<Rightarrow> (string \<times> 'a raw_value) list \<Rightarrow> py_error + 'a ext_store" where
  "set_extended_attributes (ExtStore raw ids args named pairs idlists lits litlists nums) attributes =
     process_extended_attributes
       (ExtStore attributes ids args named pairs idlists lits litlists nums) attributes"

section \<open>Members of a definition (idl\_definitions.py)\<close>

text \<open>
  \<^verbatim>\<open>IdlArgument\<close>: the fields of \<^verbatim>\<open>WithExtendedAttributes\<close> and
  \<^verbatim>\<open>WithIdlType\<close>, then its own. Arguments are values here: no claim depends on
  the identity of an argument object.
\<close>

datatype idl_argument = IdlArgument
  (arg_ext: "idl_argument ext_store")
  (arg_idl_type: idl_type)
  (arg_name: string)
  (arg_is_optional: bool)
  (arg_is_variadic: bool)
  (arg_default_value: py_value)

text \<open>\<^verbatim>\<open>IdlArgument.__init__\<close>\<close>

definition IdlArgument_init ::
    "string \<Rightarrow> idl_type \<Rightarrow> bool \<Rightarrow> bool \<Rightarrow> py_value \<Rightarrow> idl_argument" where
  "IdlArgument_init nm idl_type is_optional is_variadic default_value =
     IdlArgument WithExtendedAttributes_init idl_type nm is_optional is_variadic default_value"

text \<open>\<^verbatim>\<open>IdlArgument.__copy__\<close>\<close>

definition IdlArgument_copy :: "idl_argument \<Rightarrow> py_error + idl_argument" where
  "IdlArgument_copy a =
     (case set_extended_attributes WithExtendedAttributes_init (extended_attributes (arg_ext a)) of
        Inl e \<Rightarrow> Inl e
      | Inr ext \<Rightarrow>
          Inr (IdlArgument ext (arg_idl_type a) (arg_name a) (arg_is_optional a)
                 (arg_is_variadic a) (arg_default_value a)))"

text \<open>\<^verbatim>\<open>IdlArgument.__eq__\<close>; the class has no \<^verbatim>\<open>__ne__\<close>, so \<^verbatim>\<open>!=\<close> is its negation.\<close>

definition IdlArgument_eq :: "idl_argument \<Rightarrow> idl_argument \<Rightarrow> bool" where
  "IdlArgument_eq a b =
     (name (arg_idl_type a) = name (arg_idl_type b) \<and> arg_name a = arg_name b)"

text \<open>\<^verbatim>\<open>[copy(arg) for arg in arguments]\<close>\<close>

fun copy_arguments :: "idl_argument list \<Rightarrow> py_error + idl_argument list" where
  "copy_arguments [] = Inr []"
| "copy_arguments (a # as) =
     (case IdlArgument_copy a of
        Inl e \<Rightarrow> Inl e
      | Inr a' \<Rightarrow> (case copy_arguments as of Inl e \<Rightarrow> Inl e | Inr as' \<Rightarrow> Inr (a' # as')))"

subsection \<open>Comparison of return types\<close>

text \<open>
  \<^verbatim>\<open>t.__ne__(other)\<close> as the class of \<open>t\<close> defines it; \<open>other\<close> may be \<^verbatim>\<open>None\<close>
  (the return type of a constructor operation before it is inserted). \<open>IdlType\<close> and
  \<open>IdlNullableType\<close> answer \<^verbatim>\<open>False\<close> for a value of another class;
  \<open>IdlRecordType.__ne__\<close> reads \<^verbatim>\<open>other.key_type\<close> without a guard, which raises
  \<^verbatim>\<open>AttributeError\<close> on any other class; the remaining classes negate \<^verbatim>\<open>__eq__\<close>.
\<close>

fun type_ne :: "idl_type \<Rightarrow> idl_type option \<Rightarrow> py_error + bool" where
  "type_ne (IdlType b) other =
     (case other of Some (IdlType b') \<Rightarrow> Inr (b \<noteq> b') | _ \<Rightarrow> Inr False)"
| "type_ne (IdlRecordType k v) other =
     (case other of
        Some (IdlRecordType k' v') \<Rightarrow> Inr (\<not> (idl_eq k k' \<and> idl_eq v v'))
      | _ \<Rightarrow> Inl AttributeError)"
| "type_ne (IdlNullableType t) other =
     (case other of Some (IdlNullableType t') \<Rightarrow> Inr (\<not> idl_eq t t') | _ \<Rightarrow> Inr False)"
| "type_ne t other =
     Inr (\<not> (case other of Some u \<Rightarrow> idl_eq t u | None \<Rightarrow> False))"

text \<open>
  \<^verbatim>\<open>a != b\<close> where either side may be \<^verbatim>\<open>None\<close>: \<^verbatim>\<open>None\<close> has no answer for a
  type value, so Python asks the reflected \<^verbatim>\<open>b.__ne__(a)\<close>.
\<close>

fun py_ne :: "idl_type option \<Rightarrow> idl_type option \<Rightarrow> py_error + bool" where
  "py_ne None None = Inr False"
| "py_ne None (Some u) = type_ne u None"
| "py_ne (Some t) other = type_ne t other"

subsection \<open>Objects with identity\<close>

text \<open>
  Attributes, operations, constants and the definitions that hold them are objects with
  identity: a reference is an address in a store. \<open>owner\<close> is \<^verbatim>\<open>None\<close> or the
  reference of the holder.
\<close>

type_synonym ref = nat

record idl_attribute =
  attr_ext :: "idl_argument ext_store"
  attr_idl_type :: idl_type
  attr_owner :: "ref option"
  attr_name :: string
  attr_is_readonly :: bool
  attr_is_static :: bool
  attr_is_stringifier :: bool
  attr_is_inherit :: bool
  attr_is_event_handler :: bool

record idl_operation =
  op_ext :: "idl_argument ext_store"
  op_idl_type :: "idl_type option"
  op_owner :: "ref option"
  op_name_field :: string
  op_is_constructor :: bool
  op_is_static :: bool
  op_is_getter :: bool
  op_is_setter :: bool
  op_is_deleter :: bool
  op_is_stringifier :: bool
  op_is_legacycaller :: bool
  op_is_async :: bool
  op_arguments :: "idl_argument list"
  op_arguments_dict :: "(string \<times> idl_argument) list"

record idl_constant =
  const_ext :: "idl_argument ext_store"
  const_idl_type :: idl_type
  const_owner :: "ref option"
  const_name :: string
  const_value :: py_value

text \<open>The parent of an interface: \<^verbatim>\<open>None\<close>, a bare name, or a resolved interface.\<close>

datatype parent_ref = ParentNone | ParentName string | ParentObject ref

text \<open>
  An \<open>IdlInterface\<close>: the fields of \<^verbatim>\<open>IdlDefinition\<close>, \<^verbatim>\<open>WithOperations\<close>,
  \<^verbatim>\<open>WithAttributes\<close>, \<^verbatim>\<open>WithConstants\<close> and \<^verbatim>\<open>WithIdlType\<close>, then its own
  (the maplike, setlike and iterable declarations, which no operation below reads, are
  left out). An \<open>IdlNamespace\<close> has the fields of the first four and \<open>is_partial\<close>, and
  runs the same mixin methods; it is the same record with the other fields unused.
\<close>

record idl_interface =
  def_ext :: "idl_argument ext_store"
  def_name :: string
  operations_list :: "ref list"
  operations_dict :: "string \<Rightarrow> ref list option"
  disabled_operations :: "ref list"
  attributes_list :: "ref list"
  attributes_dict :: "string \<Rightarrow> ref option"
  attributes_typedict :: "string \<Rightarrow> ref list option"
  mutable_attributes :: "ref list"
  readonly_attributes :: "ref list"
  constants_list :: "ref list"
  constants_dict :: "string \<Rightarrow> ref option"
  def_idl_type :: idl_type
  constructors :: "ref list"
  is_stringifier :: bool
  is_callback :: bool
  is_partial :: bool
  is_declaration :: bool
  is_mixin :: bool
  is_event :: bool
  parent :: parent_ref
  event_handlers :: "ref list"

record heap =
  attrs :: "ref \<Rightarrow> idl_attribute"
  ops :: "ref \<Rightarrow> idl_operation"
  csts :: "ref \<Rightarrow> idl_constant"
  holders :: "ref \<Rightarrow> idl_interface"
  next_ref :: ref

text \<open>
  \<^verbatim>\<open>WithOwner.set_owner\<close>, as the new value of the field \<open>owner\<close>: unchanged when
  the argument is \<^verbatim>\<open>None\<close> or a partial holder.
\<close>

definition set_owner :: "heap \<Rightarrow> ref option \<Rightarrow> ref option \<Rightarrow> ref option" where
  "set_owner h current owner =
     (case owner of
        None \<Rightarrow> current
      | Some ow \<Rightarrow> if is_partial (holders h ow) then current else Some ow)"

subsection \<open>Attributes\<close>

text \<open>\<^verbatim>\<open>IdlAttribute.__init__\<close>; \<^verbatim>\<open>WithOwner.__init__\<close> leaves the owner \<^verbatim>\<open>None\<close>.\<close>

definition IdlAttribute_init ::
    "string \<Rightarrow> idl_type \<Rightarrow> bool \<Rightarrow> bool \<Rightarrow> bool \<Rightarrow> bool \<Rightarrow> idl_attribute" where
  "IdlAttribute_init nm idl_type is_readonly is_static is_stringif is_inherit =
     \<lparr>attr_ext = WithExtendedAttributes_init,
      attr_idl_type = idl_type,
      attr_owner = None,
      attr_name = nm,
      attr_is_readonly = is_readonly,
      attr_is_static = is_static,
      attr_is_stringifier = is_stringif,
      attr_is_inherit = is_inherit,
      attr_is_event_handler = (name idl_type = ''EventHandler'')\<rparr>"

text \<open>\<^verbatim>\<open>IdlAttribute.__copy__\<close>\<close>

definition IdlAttribute_copy :: "idl_attribute \<Rightarrow> py_error + idl_attribute" where
  "IdlAttribute_copy a =
     (let attribute = IdlAttribute_init (attr_name a) (attr_idl_type a) (attr_is_readonly a)
                        (attr_is_static a) (attr_is_stringifier a) (attr_is_inherit a)
      in case set_extended_attributes (attr_ext attribute) (extended_attributes (attr_ext a)) of
           Inl e \<Rightarrow> Inl e
         | Inr ext \<Rightarrow> Inr (attribute\<lparr>attr_ext := ext\<rparr>))"

text \<open>\<^verbatim>\<open>IdlAttribute.same_as\<close> and \<^verbatim>\<open>IdlAttribute.__eq__\<close>; holders compare by identity.\<close>

definition same_as :: "idl_attribute \<Rightarrow> idl_attribute \<Rightarrow> bool" where
  "same_as a b =
     (if name (attr_idl_type a) \<noteq> name (attr_idl_type b) then False
      else if attr_name a \<noteq> attr_name b then False
      else True)"

definition IdlAttribute_eq :: "idl_attribute \<Rightarrow> idl_attribute \<Rightarrow> bool" where
  "IdlAttribute_eq a b =
     (if \<not> same_as a b then False
      else if attr_owner a \<noteq> attr_owner b then False
      else True)"

text \<open>
  \<^verbatim>\<open>list.remove(x)\<close> on a list of attributes: the first item that is \<open>x\<close> or
  \<^verbatim>\<open>==\<close> to it goes; \<^verbatim>\<open>ValueError\<close> when there is none.
\<close>

fun remove_attr :: "heap \<Rightarrow> ref list \<Rightarrow> ref \<Rightarrow> py_error + ref list" where
  "remove_attr h [] x = Inl ValueError"
| "remove_attr h (i # is) x =
     (if i = x \<or> IdlAttribute_eq (attrs h i) (attrs h x) then Inr is
      else case remove_attr h is x of Inl e \<Rightarrow> Inl e | Inr is' \<Rightarrow> Inr (i # is'))"

text \<open>\<^verbatim>\<open>d.setdefault(k, []).append(r)\<close>\<close>

definition setdefault_append ::
    "(string \<Rightarrow> ref list option) \<Rightarrow> string \<Rightarrow> ref \<Rightarrow> (string \<Rightarrow> ref list option)" where
  "setdefault_append d k r = d(k \<mapsto> (case d k of None \<Rightarrow> [] | Some l \<Rightarrow> l) @ [r])"

text \<open>
  \<^verbatim>\<open>WithAttributes.add_attribute\<close>. The copy is a new object at the next free
  address; the result is the new store and what the method returns.
\<close>

definition add_attribute :: "heap \<Rightarrow> ref \<Rightarrow> ref \<Rightarrow> py_error + heap \<times> ref option" where
  "add_attribute h self attribute =
     (if attributes_dict (holders h self) (attr_name (attrs h attribute)) \<noteq> None
      then Inr (h, None)
      else case IdlAttribute_copy (attrs h attribute) of
        Inl e \<Rightarrow> Inl e
      | Inr c \<Rightarrow>
          let r = next_ref h;
              a = c\<lparr>attr_owner := set_owner h (attr_owner c) (Some self)\<rparr>;
              H = holders h self;
              H1 = H\<lparr>attributes_list := attributes_list H @ [r],
                     attributes_dict := (attributes_dict H)(attr_name a \<mapsto> r),
                     attributes_typedict :=
                       setdefault_append (attributes_typedict H) (name (attr_idl_type a)) r\<rparr>;
              H2 = (if attr_is_readonly a
                    then H1\<lparr>readonly_attributes := readonly_attributes H1 @ [r]\<rparr>
                    else if \<not> attr_is_event_handler a
                    then H1\<lparr>mutable_attributes := mutable_attributes H1 @ [r]\<rparr>
                    else H1)
          in Inr (h\<lparr>attrs := (attrs h)(r := a),
                     holders := (holders h)(self := H2),
                     next_ref := Suc r\<rparr>, Some r))"

text \<open>The argument of \<^verbatim>\<open>remove_attribute\<close>: a name or an attribute.\<close>

datatype attr_arg = ByName string | ByObject ref

text \<open>
  \<^verbatim>\<open>WithAttributes.remove_attribute\<close>. Its last statement is
  \<^verbatim>\<open>attribute.set_owner(None)\<close>.
\<close>

definition remove_attribute ::
    "heap \<Rightarrow> ref \<Rightarrow> attr_arg \<Rightarrow> py_error + heap \<times> ref option" where
  "remove_attribute h self attribute =
     (let H = holders h self;
          attr_nm = (case attribute of ByName s \<Rightarrow> s | ByObject x \<Rightarrow> attr_name (attrs h x))
      in case attributes_dict H attr_nm of
           None \<Rightarrow> Inr (h, None)
         | Some r \<Rightarrow>
             let a = attrs h r in
             (case remove_attr h (attributes_list H) r of
                Inl e \<Rightarrow> Inl e
              | Inr l1 \<Rightarrow>
                 (case attributes_typedict H (name (attr_idl_type a)) of
                    None \<Rightarrow> Inl KeyError
                  | Some tys \<Rightarrow>
                     (case remove_attr h tys r of
                        Inl e \<Rightarrow> Inl e
                      | Inr tys1 \<Rightarrow>
                         let H1 = H\<lparr>attributes_list := l1,
                                    attributes_dict := (attributes_dict H)(attr_nm := None),
                                    attributes_typedict :=
                                      (attributes_typedict H)(name (attr_idl_type a) \<mapsto> tys1)\<rparr>;
                             part =
                               (if attr_is_readonly a then
                                  (case remove_attr h (readonly_attributes H1) r of
                                     Inl e \<Rightarrow> Inl e
                                   | Inr l \<Rightarrow> Inr (H1\<lparr>readonly_attributes := l\<rparr>))
                                else if \<not> attr_is_event_handler a then
                                  (case remove_attr h (mutable_attributes H1) r of
                                     Inl e \<Rightarrow> Inl e
                                   | Inr l \<Rightarrow> Inr (H1\<lparr>mutable_attributes := l\<rparr>))
                                else Inr H1)
                         in (case part of
                               Inl e \<Rightarrow> Inl e
                             | Inr H2 \<Rightarrow>
                                 Inr (h\<lparr>attrs := (attrs h)
                                          (r := a\<lparr>attr_owner := set_owner h (attr_owner a) None\<rparr>),
                                        holders := (holders h)(self := H2)\<rparr>, Some r))))))"

subsection \<open>Operations\<close>

text \<open>\<^verbatim>\<open>{arg.name: arg for arg in arguments}\<close>\<close>

definition arguments_dict_of :: "idl_argument list \<Rightarrow> (string \<times> idl_argument) list" where
  "arguments_dict_of args = foldl (\<lambda>d a. dict_set d (arg_name a) a) [] args"

text \<open>\<^verbatim>\<open>IdlOperation.__init__\<close>; \<open>None\<close> for the arguments is the empty list.\<close>

definition IdlOperation_init ::
    "string \<Rightarrow> idl_type option \<Rightarrow> idl_argument list \<Rightarrow> bool \<Rightarrow> bool \<Rightarrow> bool \<Rightarrow> bool \<Rightarrow> bool
       \<Rightarrow> bool \<Rightarrow> bool \<Rightarrow> bool \<Rightarrow> idl_operation" where
  "IdlOperation_init nm idl_type arguments is_ctor is_static is_getter is_setter is_deleter
       is_stringif is_legacycaller is_async =
     \<lparr>op_ext = WithExtendedAttributes_init,
      op_idl_type = idl_type,
      op_owner = None,
      op_name_field = nm,
      op_is_constructor = is_ctor,
      op_is_static = is_static,
      op_is_getter = is_getter,
      op_is_setter = is_setter,
      op_is_deleter = is_deleter,
      op_is_stringifier = is_stringif,
      op_is_legacycaller = is_legacycaller,
      op_is_async = is_async,
      op_arguments = arguments,
      op_arguments_dict = arguments_dict_of arguments\<rparr>"

text \<open>The property \<^verbatim>\<open>IdlOperation.name\<close>\<close>

definition op_name :: "idl_operation \<Rightarrow> py_error + string" where
  "op_name p =
     (if op_name_field p \<noteq> [] then Inr (op_name_field p)
      else if op_is_getter p then Inr ''(getter)''
      else if op_is_setter p then Inr ''(setter)''
      else if op_is_deleter p then Inr ''(deleter)''
      else if op_is_stringifier p then Inr ''(stringifier)''
      else if op_is_legacycaller p then Inr ''(legacycaller)''
      else Inl PyException)"

text \<open>\<^verbatim>\<open>IdlOperation.__copy__\<close>\<close>

definition IdlOperation_copy :: "idl_operation \<Rightarrow> py_error + idl_operation" where
  "IdlOperation_copy p =
     (case copy_arguments (op_arguments p) of
        Inl e \<Rightarrow> Inl e
      | Inr arguments \<Rightarrow>
         (case op_name p of
            Inl e \<Rightarrow> Inl e
          | Inr nm \<Rightarrow>
             let operation = IdlOperation_init nm (op_idl_type p) arguments (op_is_constructor p)
                   (op_is_static p) (op_is_getter p) (op_is_setter p) (op_is_deleter p)
                   (op_is_stringifier p) (op_is_legacycaller p) (op_is_async p)
             in (case set_extended_attributes (op_ext operation)
                        (extended_attributes (op_ext p)) of
                   Inl e \<Rightarrow> Inl e
                 | Inr ext \<Rightarrow> Inr (operation\<lparr>op_ext := ext\<rparr>))))"

text \<open>\<^verbatim>\<open>IdlOperation.has_same_arguments\<close>\<close>

definition has_same_arguments :: "idl_operation \<Rightarrow> idl_operation \<Rightarrow> bool" where
  "has_same_arguments p q =
     (if length (op_arguments p) \<noteq> length (op_arguments q) then False
      else list_all (\<lambda>(a, b). IdlArgument_eq a b) (zip (op_arguments p) (op_arguments q)))"

text \<open>\<^verbatim>\<open>IdlOperation.__eq__\<close>\<close>

definition IdlOperation_eq :: "idl_operation \<Rightarrow> idl_operation \<Rightarrow> py_error + bool" where
  "IdlOperation_eq p q =
     (case op_name p of
        Inl e \<Rightarrow> Inl e
      | Inr n1 \<Rightarrow>
         (case op_name q of
            Inl e \<Rightarrow> Inl e
          | Inr n2 \<Rightarrow>
             if n1 \<noteq> n2 then Inr False
             else if op_owner p \<noteq> op_owner q then Inr False
             else (case py_ne (op_idl_type p) (op_idl_type q) of
                     Inl e \<Rightarrow> Inl e
                   | Inr ne \<Rightarrow>
                       if ne then Inr False
                       else if \<not> has_same_arguments p q then Inr False
                       else Inr True)))"

text \<open>
  \<^verbatim>\<open>operation in self._operations\<close>: each item in turn, \<^verbatim>\<open>item is operation\<close>
  first, then \<^verbatim>\<open>item == operation\<close>.
\<close>

fun contains_op :: "heap \<Rightarrow> ref list \<Rightarrow> ref \<Rightarrow> py_error + bool" where
  "contains_op h [] x = Inr False"
| "contains_op h (i # is) x =
     (if i = x then Inr True
      else case IdlOperation_eq (ops h i) (ops h x) of
             Inl e \<Rightarrow> Inl e
           | Inr b \<Rightarrow> if b then Inr True else contains_op h is x)"

text \<open>\<^verbatim>\<open>WithOperations.has_operation\<close> on an operation object.\<close>

definition has_operation :: "heap \<Rightarrow> ref \<Rightarrow> ref \<Rightarrow> py_error + bool" where
  "has_operation h self operation = contains_op h (operations_list (holders h self)) operation"

text \<open>\<^verbatim>\<open>WithOperations.add_operation\<close>\<close>

definition WithOperations_add_operation ::
    "heap \<Rightarrow> ref \<Rightarrow> ref \<Rightarrow> py_error + heap \<times> ref option" where
  "WithOperations_add_operation h self operation =
     (case IdlOperation_copy (ops h operation) of
        Inl e \<Rightarrow> Inl e
      | Inr c \<Rightarrow>
          let r = next_ref h;
              p = c\<lparr>op_owner := set_owner h (op_owner c) (Some self)\<rparr>;
              h1 = h\<lparr>ops := (ops h)(r := p), next_ref := Suc r\<rparr>
          in (case has_operation h1 self r of
                Inl e \<Rightarrow> Inl e
              | Inr present \<Rightarrow>
                  if present then Inr (h1, None)
                  else if op_is_setter p \<or> op_is_getter p \<or> op_is_deleter p then Inr (h1, None)
                  else (case op_name p of
                          Inl e \<Rightarrow> Inl e
                        | Inr nm \<Rightarrow>
                            let H = holders h1 self;
                                H1 = H\<lparr>operations_list := operations_list H @ [r],
                                       operations_dict :=
                                         setdefault_append (operations_dict H) nm r\<rparr>
                            in Inr (h1\<lparr>holders := (holders h1)(self := H1)\<rparr>, Some r))))"

text \<open>\<^verbatim>\<open>IdlInterface.add_operation\<close>\<close>

definition IdlInterface_add_operation ::
    "heap \<Rightarrow> ref \<Rightarrow> ref \<Rightarrow> py_error + heap \<times> bool" where
  "IdlInterface_add_operation h self operation =
     (case WithOperations_add_operation h self operation of
        Inl e \<Rightarrow> Inl e
      | Inr (h1, None) \<Rightarrow> Inr (h1, False)
      | Inr (h1, Some r) \<Rightarrow>
          let p = ops h1 r; H = holders h1 self in
          if op_is_constructor p then
            (if (case op_idl_type p of None \<Rightarrow> True | Some t \<Rightarrow> idl_eq t (def_idl_type H))
             then Inr (h1\<lparr>holders := (holders h1)(self := H\<lparr>constructors := constructors H @ [r]\<rparr>),
                          ops := (ops h1)(r := p\<lparr>op_idl_type := Some (IdlType (def_name H))\<rparr>)\<rparr>,
                       True)
             else Inl AssertionError)
          else if op_idl_type p = None then Inl AssertionError
          else Inr (h1, True))"

subsection \<open>Constants\<close>

text \<open>\<^verbatim>\<open>IdlConstant.__init__\<close>\<close>

definition IdlConstant_init :: "string \<Rightarrow> idl_type \<Rightarrow> py_value \<Rightarrow> idl_constant" where
  "IdlConstant_init const_nm const_type const_val =
     \<lparr>const_ext = WithExtendedAttributes_init,
      const_idl_type = const_type,
      const_owner = None,
      const_name = const_nm,
      const_value = const_val\<rparr>"

text \<open>
  \<^verbatim>\<open>WithConstants.add_constant\<close>: the object appended and indexed is the argument
  itself, and \<^verbatim>\<open>set_owner\<close> is called on it.
\<close>

definition add_constant :: "heap \<Rightarrow> ref \<Rightarrow> ref \<Rightarrow> heap" where
  "add_constant h self constant =
     (let H = holders h self; c = csts h constant in
      if constants_dict H (const_name c) \<noteq> None then h
      else h\<lparr>holders := (holders h)
                (self := H\<lparr>constants_list := constants_list H @ [constant],
                          constants_dict := (constants_dict H)(const_name c \<mapsto> constant)\<rparr>),
              csts := (csts h)
                (constant := c\<lparr>const_owner := set_owner h (const_owner c) (Some self)\<rparr>)\<rparr>)"

section \<open>Interfaces (idl\_definitions.py, IdlInterface)\<close>

text \<open>
  \<^verbatim>\<open>IdlInterface.set_name\<close>: nothing happens unless the argument is a non-empty
  string.
\<close>

definition set_name :: "py_value \<Rightarrow> idl_interface \<Rightarrow> idl_interface" where
  "set_name v i =
     (case v of
        PyStr n \<Rightarrow> if n = [] then i else i\<lparr>def_name := n, def_idl_type := IdlType n\<rparr>
      | _ \<Rightarrow> i)"

text \<open>
  \<^verbatim>\<open>IdlInterface.__init__\<close>: \<^verbatim>\<open>IdlDefinition.__init__\<close> sets the name to the empty
  string, \<^verbatim>\<open>WithIdlType.__init__\<close> sets the type to \<^verbatim>\<open>IdlType(name)\<close>, then
  \<^verbatim>\<open>set_name(name)\<close> runs and the remaining fields are assigned.
\<close>

definition IdlInterface_init ::
    "string \<Rightarrow> bool \<Rightarrow> bool \<Rightarrow> parent_ref \<Rightarrow> bool \<Rightarrow> idl_interface" where
  "IdlInterface_init nm is_stringif is_mix par is_decl =
     set_name (PyStr nm)
       \<lparr>def_ext = WithExtendedAttributes_init,
        def_name = [],
        operations_list = [],
        operations_dict = Map.empty,
        disabled_operations = [],
        attributes_list = [],
        attributes_dict = Map.empty,
        attributes_typedict = Map.empty,
        mutable_attributes = [],
        readonly_attributes = [],
        constants_list = [],
        constants_dict = Map.empty,
        def_idl_type = IdlType nm,
        constructors = [],
        is_stringifier = is_stringif,
        is_callback = False,
        is_partial = False,
        is_declaration = is_decl,
        is_mixin = is_mix,
        is_event = False,
        parent = par,
        event_handlers = []\<rparr>"

text \<open>The coupling of the two fields that \<^verbatim>\<open>set_name\<close> assigns together.\<close>

definition name_type_coupled :: "idl_interface \<Rightarrow> bool" where
  "name_type_coupled i = (def_idl_type i = IdlType (def_name i))"

text \<open>The argument of \<^verbatim>\<open>is_subclass_of\<close>: a name or an interface.\<close>

datatype other_arg = OtherName string | OtherInterface ref

text \<open>
  \<^verbatim>\<open>other == parent_info\<close>: the name of the ancestor against a string, the ancestor
  itself (by identity, \<open>IdlInterface\<close> has no \<^verbatim>\<open>__eq__\<close>) against an interface.
\<close>

definition matches :: "heap \<Rightarrow> other_arg \<Rightarrow> ref \<Rightarrow> bool" where
  "matches h other i =
     (case other of
        OtherName s \<Rightarrow> s = def_name (holders h i)
      | OtherInterface x \<Rightarrow> x = i)"

text \<open>
  The loop of \<^verbatim>\<open>IdlInterface.is_subclass_of\<close>, from the current value of \<open>i\<close>.
  \<^verbatim>\<open>None\<close> and the empty string end the loop; a non-empty string fails the assertion
  \<^verbatim>\<open>isinstance(i, IdlInterface)\<close>. On a cyclic parent chain without a match the loop
  does not end: the result is \<open>None\<close>.
\<close>

partial_function (option) subclass_loop ::
    "heap \<Rightarrow> other_arg \<Rightarrow> parent_ref \<Rightarrow> (py_error + bool) option" where
  "subclass_loop h other i =
     (case i of
        ParentNone \<Rightarrow> Some (Inr False)
      | ParentName s \<Rightarrow> if s = [] then Some (Inr False) else Some (Inl AssertionError)
      | ParentObject r \<Rightarrow>
          if matches h other r then Some (Inr True)
          else subclass_loop h other (parent (holders h r)))"

definition is_subclass_of :: "heap \<Rightarrow> ref \<Rightarrow> other_arg \<Rightarrow> (py_error + bool) option" where
  "is_subclass_of h self other = subclass_loop h other (parent (holders h self))"

text \<open>
  A chain of resolved parents: from the parent reference \<open>i\<close> the interfaces \<open>rs\<close> follow
  one another, and the parent of the last is \<open>e\<close>.
\<close>

fun resolved_chain :: "heap \<Rightarrow> parent_ref \<Rightarrow> ref list \<Rightarrow> parent_ref \<Rightarrow> bool" where
  "resolved_chain h i [] e = (i = e)"
| "resolved_chain h i (r # rs) e = (i = ParentObject r \<and> resolved_chain h (parent (holders h r)) rs e)"

subsection \<open>Building a store\<close>

text \<open>A store with no object allocated, and the allocation of a new object of each class.\<close>

definition empty_heap :: heap where
  "empty_heap =
     \<lparr>attrs = (\<lambda>_. IdlAttribute_init [] (IdlType []) False False False False),
      ops = (\<lambda>_. IdlOperation_init [] None [] False False False False False False False False),
      csts = (\<lambda>_. IdlConstant_init [] (IdlType []) PyNone),
      holders = (\<lambda>_. IdlInterface_init [] False False ParentNone False),
      next_ref = 0\<rparr>"

definition new_attribute :: "heap \<Rightarrow> idl_attribute \<Rightarrow> heap" where
  "new_attribute h a = h\<lparr>attrs := (attrs h)(next_ref h := a), next_ref := Suc (next_ref h)\<rparr>"

definition new_operation :: "heap \<Rightarrow> idl_operation \<Rightarrow> heap" where
  "new_operation h p = h\<lparr>ops := (ops h)(next_ref h := p), next_ref := Suc (next_ref h)\<rparr>"

definition new_constant :: "heap \<Rightarrow> idl_constant \<Rightarrow> heap" where
  "new_constant h c = h\<lparr>csts := (csts h)(next_ref h := c), next_ref := Suc (next_ref h)\<rparr>"

definition new_interface :: "heap \<Rightarrow> idl_interface \<Rightarrow> heap" where
  "new_interface h i = h\<lparr>holders := (holders h)(next_ref h := i), next_ref := Suc (next_ref h)\<rparr>"

subsection \<open>Example stores\<close>

text \<open>
  Interfaces \<open>A\<close> (no parent), \<open>B\<close> (parent \<open>A\<close>) and \<open>C\<close> (parent \<open>B\<close>) at the addresses
  0, 1 and 2, with the parents resolved to objects.
\<close>

definition abc_heap :: heap where
  "abc_heap =
     new_interface
       (new_interface
          (new_interface empty_heap (IdlInterface_init ''A'' False False ParentNone False))
          (IdlInterface_init ''B'' False False (ParentObject 0) False))
       (IdlInterface_init ''C'' False False (ParentObject 1) False)"

text \<open>An interface \<open>B\<close> at address 0 whose parent is the bare name \<open>A\<close>.\<close>

definition unresolved_heap :: heap where
  "unresolved_heap =
     new_interface empty_heap (IdlInterface_init ''B'' False False (ParentName ''A'') False)"

text \<open>
  An interface \<open>Foo\<close> at address 0 and three members not yet inserted: the attribute
  \<^verbatim>\<open>long x\<close> at 1, the operation \<^verbatim>\<open>long bar()\<close> at 2 and the constant \<open>K\<close> at 3.
\<close>

definition foo_heap :: heap where
  "foo_heap =
     new_constant
       (new_operation
          (new_attribute
             (new_interface empty_heap (IdlInterface_init ''Foo'' False False ParentNone False))
             (IdlAttribute_init ''x'' (IdlType ''long'') False False False False))
          (IdlOperation_init ''bar'' (Some (IdlType ''long'')) [] False False False False False
             False False False))
       (IdlConstant_init ''K'' (IdlType ''long'') (PyInt 1))"

text \<open>The same store after \<^verbatim>\<open>Foo.is_partial = True\<close>.\<close>

definition partial_foo_heap :: heap where
  "partial_foo_heap =
     foo_heap\<lparr>holders := (holders foo_heap)(0 := (holders foo_heap 0)\<lparr>is_partial := True\<rparr>)\<rparr>"
section \<open>Properties of the type algebra\<close>

lemma idl_eq_refl: "idl_eq t t"
  by (induction t) (simp_all add: dict_eq_def)

lemma idl_eq_variant: "idl_eq t u \<Longrightarrow> variant_of t = variant_of u"
  by (cases t; cases u) simp_all

lemma name_keyed_eq:
  "name_keyed t \<Longrightarrow> idl_eq t u = (variant_of t = variant_of u \<and> name t = name u)"
  by (cases t; cases u) (auto simp: name_keyed_def)

lemma name_keyed_variant: "variant_of t = variant_of u \<Longrightarrow> name_keyed t = name_keyed u"
  by (simp add: name_keyed_def)

lemma keyed_name:
  assumes "name_keyed t" and "idl_eq t u"
  shows "name t = name u"
  using assms by (simp add: name_keyed_eq)

lemma keyed_sym:
  assumes "name_keyed t" and "idl_eq t u"
  shows "idl_eq u t"
proof -
  from assms have v: "variant_of t = variant_of u" and n: "name t = name u"
    by (simp_all add: name_keyed_eq)
  from v assms(1) have "name_keyed u"
    by (simp add: name_keyed_def)
  then show ?thesis
    using v n by (simp add: name_keyed_eq)
qed

lemma keyed_trans:
  assumes "name_keyed t" and "idl_eq t u" and "idl_eq u v"
  shows "idl_eq t v"
proof -
  from assms(1,2) have tu: "variant_of t = variant_of u" "name t = name u"
    by (simp_all add: name_keyed_eq)
  from tu(1) assms(1) have "name_keyed u"
    by (simp add: name_keyed_def)
  with assms(3) have uv: "variant_of u = variant_of v" "name u = name v"
    by (simp_all add: name_keyed_eq)
  show ?thesis
    using tu uv by (simp add: name_keyed_eq [OF assms(1)])
qed

lemma idl_eq_name: "idl_eq t u \<Longrightarrow> name t = name u"
proof (induction t arbitrary: u)
  case (IdlType b)
  then show ?case by (cases u) simp_all
next
  case (IdlRecordType k v)
  from IdlRecordType.prems obtain k' v'
    where u: "u = IdlRecordType k' v'" and e: "idl_eq k k'" "idl_eq v v'"
    by (cases u) simp_all
  from e have "name k = name k'" "name v = name v'"
    by (simp_all add: IdlRecordType.IH)
  then show ?case by (simp add: u)
next
  case (IdlNullableType t)
  from IdlNullableType.prems obtain t' where u: "u = IdlNullableType t'" and e: "idl_eq t t'"
    by (cases u) simp_all
  from e have "name t = name t'" by (rule IdlNullableType.IH)
  then show ?case by (simp add: u)
next
  case (IdlAnnotatedType t a)
  from IdlAnnotatedType.prems obtain t' a'
    where u: "u = IdlAnnotatedType t' a'" and e: "idl_eq t t'"
    by (cases u) simp_all
  from e have "name t = name t'" by (rule IdlAnnotatedType.IH)
  then show ?case by (simp add: u)
next
  case (IdlPromiseType t)
  show ?case by (rule keyed_name [OF _ IdlPromiseType.prems]) (simp add: name_keyed_def)
next
  case (IdlUnionType ms)
  show ?case by (rule keyed_name [OF _ IdlUnionType.prems]) (simp add: name_keyed_def)
next
  case (IdlSequenceType t)
  show ?case by (rule keyed_name [OF _ IdlSequenceType.prems]) (simp add: name_keyed_def)
next
  case (IdlFrozenArrayType t)
  show ?case by (rule keyed_name [OF _ IdlFrozenArrayType.prems]) (simp add: name_keyed_def)
next
  case (IdlObservableArrayType t)
  show ?case by (rule keyed_name [OF _ IdlObservableArrayType.prems]) (simp add: name_keyed_def)
qed

lemma idl_eq_sym: "idl_eq t u \<Longrightarrow> idl_eq u t"
proof (induction t arbitrary: u)
  case (IdlType b)
  then show ?case by (cases u) simp_all
next
  case (IdlRecordType k v)
  from IdlRecordType.prems obtain k' v'
    where u: "u = IdlRecordType k' v'" and e: "idl_eq k k'" "idl_eq v v'"
    by (cases u) simp_all
  from e have "idl_eq k' k" "idl_eq v' v"
    by (simp_all add: IdlRecordType.IH)
  then show ?case by (simp add: u)
next
  case (IdlNullableType t)
  from IdlNullableType.prems obtain t' where u: "u = IdlNullableType t'" and e: "idl_eq t t'"
    by (cases u) simp_all
  from e have "idl_eq t' t" by (rule IdlNullableType.IH)
  then show ?case by (simp add: u)
next
  case (IdlAnnotatedType t a)
  from IdlAnnotatedType.prems obtain t' a'
    where u: "u = IdlAnnotatedType t' a'" and e: "idl_eq t t'" and d: "dict_eq a a'"
    by (cases u) simp_all
  from e have "idl_eq t' t" by (rule IdlAnnotatedType.IH)
  moreover from d have "dict_eq a' a" by (simp add: dict_eq_def)
  ultimately show ?case by (simp add: u)
next
  case (IdlPromiseType t)
  show ?case by (rule keyed_sym [OF _ IdlPromiseType.prems]) (simp add: name_keyed_def)
next
  case (IdlUnionType ms)
  show ?case by (rule keyed_sym [OF _ IdlUnionType.prems]) (simp add: name_keyed_def)
next
  case (IdlSequenceType t)
  show ?case by (rule keyed_sym [OF _ IdlSequenceType.prems]) (simp add: name_keyed_def)
next
  case (IdlFrozenArrayType t)
  show ?case by (rule keyed_sym [OF _ IdlFrozenArrayType.prems]) (simp add: name_keyed_def)
next
  case (IdlObservableArrayType t)
  show ?case by (rule keyed_sym [OF _ IdlObservableArrayType.prems]) (simp add: name_keyed_def)
qed

lemma idl_eq_trans: "idl_eq t u \<Longrightarrow> idl_eq u v \<Longrightarrow> idl_eq t v"
proof (induction t arbitrary: u v)
  case (IdlType b)
  then show ?case by (cases u; cases v) simp_all
next
  case (IdlRecordType k w)
  from IdlRecordType.prems(1) obtain k' w'
    where u: "u = IdlRecordType k' w'" and e: "idl_eq k k'" "idl_eq w w'"
    by (cases u) simp_all
  from IdlRecordType.prems(2) u obtain k'' w''
    where v: "v = IdlRecordType k'' w''" and f: "idl_eq k' k''" "idl_eq w' w''"
    by (cases v) simp_all
  from e(1) f(1) have "idl_eq k k''" by (rule IdlRecordType.IH(1))
  moreover from e(2) f(2) have "idl_eq w w''" by (rule IdlRecordType.IH(2))
  ultimately show ?case by (simp add: v)
next
  case (IdlNullableType t)
  from IdlNullableType.prems(1) obtain t' where u: "u = IdlNullableType t'" and e: "idl_eq t t'"
    by (cases u) simp_all
  from IdlNullableType.prems(2) u obtain t''
    where v: "v = IdlNullableType t''" and f: "idl_eq t' t''"
    by (cases v) simp_all
  from e f have "idl_eq t t''" by (rule IdlNullableType.IH)
  then show ?case by (simp add: v)
next
  case (IdlAnnotatedType t a)
  from IdlAnnotatedType.prems(1) obtain t' a'
    where u: "u = IdlAnnotatedType t' a'" and e: "idl_eq t t'" and d: "dict_eq a a'"
    by (cases u) simp_all
  from IdlAnnotatedType.prems(2) u obtain t'' a''
    where v: "v = IdlAnnotatedType t'' a''" and f: "idl_eq t' t''" and d': "dict_eq a' a''"
    by (cases v) simp_all
  from e f have "idl_eq t t''" by (rule IdlAnnotatedType.IH)
  moreover from d d' have "dict_eq a a''" by (simp add: dict_eq_def)
  ultimately show ?case by (simp add: v)
next
  case (IdlPromiseType t)
  show ?case
    by (rule keyed_trans [OF _ IdlPromiseType.prems]) (simp add: name_keyed_def)
next
  case (IdlUnionType ms)
  show ?case
    by (rule keyed_trans [OF _ IdlUnionType.prems]) (simp add: name_keyed_def)
next
  case (IdlSequenceType t)
  show ?case
    by (rule keyed_trans [OF _ IdlSequenceType.prems]) (simp add: name_keyed_def)
next
  case (IdlFrozenArrayType t)
  show ?case
    by (rule keyed_trans [OF _ IdlFrozenArrayType.prems]) (simp add: name_keyed_def)
next
  case (IdlObservableArrayType t)
  show ?case
    by (rule keyed_trans [OF _ IdlObservableArrayType.prems]) (simp add: name_keyed_def)
qed

lemma nullable_not_eq_inner: "\<not> idl_eq (IdlNullableType t) t"
  by (induction t) simp_all

lemma count_pos_iff:
  "(0 < number_of_nullable_member_types ms) = contains_nullable_member ms"
proof (induction ms rule: number_of_nullable_member_types.induct)
  case 1
  show ?case by simp
next
  case (2 m ms)
  show ?case
  proof (cases m)
    case (IdlUnionType ns)
    with 2 show ?thesis by simp
  next
    case (IdlNullableType n)
    then show ?thesis by simp
  qed (use 2 in simp_all)
qed

lemma type_name_Any: "(type_name b = ''Any'') = (b = ''any'' \<or> b = ''Any'')"
  by (auto simp: type_name_def TYPE_NAMES_def)

lemma name_Any_iff: "(name t = ''Any'') = named_any t"
  by (induction t) (simp_all add: type_name_Any)

subsection \<open>The member set of a union\<close>

lemma same_entry_key: "same_entry H y x = (entry_key H y = entry_key H x)"
proof -
  have "idl_eq y x = ({z. idl_eq y z} = {z. idl_eq x z})"
  proof
    assume a: "idl_eq y x"
    then have b: "idl_eq x y" by (rule idl_eq_sym)
    show "{z. idl_eq y z} = {z. idl_eq x z}"
      using a b idl_eq_trans by blast
  next
    assume "{z. idl_eq y z} = {z. idl_eq x z}"
    moreover have "x \<in> {z. idl_eq x z}" by (simp add: idl_eq_refl)
    ultimately have "x \<in> {z. idl_eq y z}" by simp
    then show "idl_eq y x" by simp
  qed
  then show ?thesis
    by (simp add: same_entry_def entry_key_def)
qed

lemma entry_key_name: "entry_key H x = entry_key H y \<Longrightarrow> name x = name y"
proof -
  assume "entry_key H x = entry_key H y"
  then have "same_entry H x y" by (simp add: same_entry_key)
  then have "idl_eq x y" by (simp add: same_entry_def)
  then show ?thesis by (rule idl_eq_name)
qed

lemma set_add_keys:
  assumes "distinct (map (entry_key H) s)"
  shows "distinct (map (entry_key H) (set_add H s x))"
    and "entry_key H ` set (set_add H s x) = insert (entry_key H x) (entry_key H ` set s)"
proof -
  have c: "list_ex (\<lambda>y. same_entry H y x) s = (entry_key H x \<in> entry_key H ` set s)"
    by (simp add: list_ex_iff same_entry_key image_iff eq_commute)
  show "distinct (map (entry_key H) (set_add H s x))"
    using assms by (simp add: set_add_def c)
  show "entry_key H ` set (set_add H s x) = insert (entry_key H x) (entry_key H ` set s)"
    by (simp add: set_add_def c insert_absorb)
qed

lemma foldl_set_add_keys:
  "distinct (map (entry_key H) s) \<Longrightarrow>
     distinct (map (entry_key H) (foldl (set_add H) s xs))
     \<and> entry_key H ` set (foldl (set_add H) s xs) = entry_key H ` (set s \<union> set xs)"
proof (induction xs arbitrary: s)
  case Nil
  then show ?case by simp
next
  case (Cons x xs)
  from Cons.prems have d: "distinct (map (entry_key H) (set_add H s x))"
    by (rule set_add_keys(1))
  from Cons.prems
  have i: "entry_key H ` set (set_add H s x) = insert (entry_key H x) (entry_key H ` set s)"
    by (rule set_add_keys(2))
  from Cons.IH [OF d] i show ?case
    by (simp add: image_Un insert_commute Un_commute)
qed

lemma set_add_not_Nil: "set_add H s x \<noteq> []"
  by (cases s) (simp_all add: set_add_def)

lemma foldl_set_add_Nil: "(foldl (set_add H) s xs = []) = (s = [] \<and> xs = [])"
proof (induction xs arbitrary: s)
  case Nil
  show ?case by simp
next
  case (Cons x xs)
  have "(foldl (set_add H) (set_add H s x) xs = []) = (set_add H s x = [] \<and> xs = [])"
    by (rule Cons.IH)
  then show ?case by (simp add: set_add_not_Nil)
qed

lemma py_set_Nil: "(py_set H xs = []) = (xs = [])"
  by (simp add: py_set_def foldl_set_add_Nil)

lemma set_add_subset: "set (set_add H s x) \<subseteq> insert x (set s)"
  by (auto simp: set_add_def)

lemma foldl_set_add_subset: "set (foldl (set_add H) s xs) \<subseteq> set s \<union> set xs"
proof (induction xs arbitrary: s)
  case Nil
  show ?case by simp
next
  case (Cons x xs)
  have "set (foldl (set_add H) (set_add H s x) xs) \<subseteq> set (set_add H s x) \<union> set xs"
    by (rule Cons.IH)
  also have "\<dots> \<subseteq> insert x (set s) \<union> set xs"
    using set_add_subset [of H s x] by blast
  finally show ?case by auto
qed

lemma py_set_subset: "set (py_set H xs) \<subseteq> set xs"
  using foldl_set_add_subset [of H "[]" xs] by (simp add: py_set_def)

lemma py_set_keys:
  "distinct (map (entry_key H) (py_set H xs))"
  "entry_key H ` set (py_set H xs) = entry_key H ` set xs"
  using foldl_set_add_keys [of H "[]" xs] by (simp_all add: py_set_def)

lemma py_set_covers:
  assumes "x \<in> set xs"
  shows "\<exists>m\<in>set (py_set H xs). same_entry H m x"
proof -
  from assms have "entry_key H x \<in> entry_key H ` set (py_set H xs)"
    by (simp add: py_set_keys(2))
  then obtain m where "m \<in> set (py_set H xs)" and "entry_key H x = entry_key H m"
    by blast
  then show ?thesis
    by (auto simp: same_entry_key)
qed

lemma sorted_py_set_apart:
  assumes "i < j" and "j < length (sort_key name (py_set H xs))"
  shows "\<not> same_entry H (sort_key name (py_set H xs) ! i) (sort_key name (py_set H xs) ! j)"
proof -
  let ?ms = "sort_key name (py_set H xs)"
  have "mset (map (entry_key H) ?ms) = mset (map (entry_key H) (py_set H xs))"
    by simp
  then have "distinct (map (entry_key H) ?ms) = distinct (map (entry_key H) (py_set H xs))"
    by (rule mset_eq_imp_distinct_iff)
  then have d: "distinct (map (entry_key H) ?ms)"
    by (simp add: py_set_keys(1))
  from assms have "i < length (map (entry_key H) ?ms)" "j < length (map (entry_key H) ?ms)" "i \<noteq> j"
    by simp_all
  with d have "map (entry_key H) ?ms ! i \<noteq> map (entry_key H) ?ms ! j"
    unfolding distinct_conv_nth by blast
  with assms show ?thesis
    by (simp add: same_entry_key)
qed

lemma member_names_mset:
  assumes "mset xs = mset ys"
  shows "mset (map name (py_set H xs)) = mset (map name (py_set H ys))"
proof -
  define k where "k = entry_key H"
  define g where "g = (\<lambda>c. name (SOME z. k z = c))"
  have g: "name x = g (k x)" for x
  proof -
    have "k (SOME z. k z = k x) = k x"
      by (rule someI [of "\<lambda>z. k z = k x" x]) simp
    then have "name (SOME z. k z = k x) = name x"
      unfolding k_def by (rule entry_key_name)
    then show ?thesis by (simp add: g_def)
  qed
  have names: "mset (map name l) = image_mset g (mset (map k l))" for l
  proof -
    have "image_mset name (mset l) = image_mset (\<lambda>x. g (k x)) (mset l)"
      by (rule image_mset_cong) (rule g)
    then show ?thesis
      by (simp add: multiset.map_comp comp_def)
  qed
  have sx: "set xs = set ys" using assms by (rule mset_eq_setD)
  have dx: "distinct (map k (py_set H xs))" and ix: "k ` set (py_set H xs) = k ` set xs"
    using foldl_set_add_keys [of H "[]" xs] by (simp_all add: py_set_def k_def)
  have dy: "distinct (map k (py_set H ys))" and iy: "k ` set (py_set H ys) = k ` set ys"
    using foldl_set_add_keys [of H "[]" ys] by (simp_all add: py_set_def k_def)
  have "set (map k (py_set H xs)) = set (map k (py_set H ys))"
    using ix iy sx by simp
  with dx dy have "mset (map k (py_set H xs)) = mset (map k (py_set H ys))"
    by (simp only: set_eq_iff_mset_eq_distinct)
  then show ?thesis
    by (simp only: names)
qed

lemma map_name_sort_key: "map name (sort_key name l) = sort (map name l)"
  by (rule sym, rule properties_for_sort) simp_all

lemma sorted_member_names:
  assumes "mset xs = mset ys"
  shows "map name (sort_key name (py_set H xs)) = map name (sort_key name (py_set H ys))"
proof -
  from assms have "mset (map name (py_set H xs)) = mset (map name (py_set H ys))"
    by (rule member_names_mset)
  then have "sort (map name (py_set H xs)) = sort (map name (py_set H ys))"
    by (intro properties_for_sort) simp_all
  then show ?thesis
    by (simp only: map_name_sort_key)
qed

section \<open>Claims about the type algebra\<close>

text \<open>
  C1 (as amended). Two type values are \<^verbatim>\<open>==\<close> exactly when they are of the same
  variant and, by variant: the base names are equal (a named type); the names are equal
  (promise, union, sequence, frozen array, observable array); keys and values are
  \<^verbatim>\<open>==\<close> (record); the inner types are \<^verbatim>\<open>==\<close> (nullable); the inner types are
  \<^verbatim>\<open>==\<close> and the attribute sets are equal (annotated). Values of different variants
  are never \<^verbatim>\<open>==\<close>. So \<^verbatim>\<open>==\<close> implies equal names and every value is
  \<^verbatim>\<open>==\<close> to itself, but equal names do not imply \<^verbatim>\<open>==\<close>: a nullable type always
  has the name of its inner type and is never \<^verbatim>\<open>==\<close> to it.
\<close>

theorem type_equality_characterised:
  "idl_eq (IdlType b) (IdlType b') = (b = b')
   \<and> (name_keyed t \<longrightarrow> idl_eq t u = (variant_of t = variant_of u \<and> name t = name u))
   \<and> idl_eq (IdlRecordType k v) (IdlRecordType k' v') = (idl_eq k k' \<and> idl_eq v v')
   \<and> idl_eq (IdlNullableType x) (IdlNullableType x') = idl_eq x x'
   \<and> idl_eq (IdlAnnotatedType x a) (IdlAnnotatedType x' a') = (idl_eq x x' \<and> set a = set a')
   \<and> (variant_of t \<noteq> variant_of u \<longrightarrow> \<not> idl_eq t u)
   \<and> (idl_eq t u \<longrightarrow> name t = name u)
   \<and> idl_eq t t
   \<and> \<not> idl_eq (IdlNullableType t) t
   \<and> name (IdlNullableType t) = name t"
proof -
  have 1: "idl_eq (IdlType b) (IdlType b') = (b = b')"
    by simp
  have 2: "name_keyed t \<longrightarrow> idl_eq t u = (variant_of t = variant_of u \<and> name t = name u)"
    using name_keyed_eq by blast
  have 3: "idl_eq (IdlRecordType k v) (IdlRecordType k' v') = (idl_eq k k' \<and> idl_eq v v')"
    by simp
  have 4: "idl_eq (IdlNullableType x) (IdlNullableType x') = idl_eq x x'"
    by simp
  have 5: "idl_eq (IdlAnnotatedType x a) (IdlAnnotatedType x' a') = (idl_eq x x' \<and> set a = set a')"
    by (simp add: dict_eq_def)
  have 6: "variant_of t \<noteq> variant_of u \<longrightarrow> \<not> idl_eq t u"
    using idl_eq_variant by blast
  have 7: "idl_eq t u \<longrightarrow> name t = name u"
    using idl_eq_name by blast
  have 8: "idl_eq t t"
    by (rule idl_eq_refl)
  have 9: "\<not> idl_eq (IdlNullableType t) t"
    by (rule nullable_not_eq_inner)
  have 10: "name (IdlNullableType t) = name t"
    by simp
  from 1 2 3 4 5 6 7 8 9 10 show ?thesis
    by (intro conjI)
qed

theorem type_equality_characterised_witness:
  "idl_eq (IdlSequenceType (IdlType ''long'')) (IdlSequenceType (IdlType ''long''))
   \<and> name_keyed (IdlSequenceType (IdlType ''long''))
   \<and> name (IdlSequenceType (IdlType ''long'')) = ''Sequence(Long)''
   \<and> variant_of (IdlSequenceType (IdlType ''long'')) \<noteq> variant_of (IdlType ''Sequence(Long)'')
   \<and> \<not> idl_eq (IdlSequenceType (IdlType ''long'')) (IdlType ''Sequence(Long)'')"
  using type_equality_characterised
    [of _ _ "IdlSequenceType (IdlType ''long'')" "IdlSequenceType (IdlType ''long'')"]
    type_equality_characterised
    [of _ _ "IdlSequenceType (IdlType ''long'')" "IdlType ''Sequence(Long)''"]
  by (simp add: name_keyed_def type_name_def TYPE_NAMES_def)

text \<open>
  C1 as stated fails, across variants and inside one. \<^verbatim>\<open>IdlNullableType(IdlType('long'))\<close>
  is constructed without error and has the name of \<^verbatim>\<open>IdlType('long')\<close>, and the two
  are not \<^verbatim>\<open>==\<close>; \<^verbatim>\<open>IdlType('long')\<close> and \<^verbatim>\<open>IdlType('Long')\<close> both have the name
  \<open>Long\<close> and are not \<^verbatim>\<open>==\<close>.
\<close>

theorem nullable_same_name_not_equal:
  "IdlNullableType_init (IdlType ''long'') = Inr (IdlNullableType (IdlType ''long''))
   \<and> \<not> (idl_eq (IdlNullableType (IdlType ''long'')) (IdlType ''long'')
          = (name (IdlNullableType (IdlType ''long'')) = name (IdlType ''long'')))
   \<and> \<not> (idl_eq (IdlType ''long'') (IdlType ''Long'')
          = (name (IdlType ''long'') = name (IdlType ''Long'')))"
  by (simp add: IdlNullableType_init_def type_name_def TYPE_NAMES_def)

text \<open>
  C2 (as amended). Constructing a nullable type raises \<^verbatim>\<open>ValueError\<close> (the error the
  specification calls \<open>TypeConstraintError\<close>) exactly when the canonical name of the inner
  type is \<open>Any\<close>, or the inner type is a promise, a nullable, or a union that contains a
  nullable member (directly or inside a nested union); otherwise it returns the nullable
  type whose nested type is the inner type given. The canonical name is \<open>Any\<close> exactly for
  the type \<^verbatim>\<open>any\<close>, a nominal type with the base name \<open>Any\<close>, and a nullable or
  annotated type around one of these.
\<close>

theorem nullable_construction:
  "IdlNullableType_init X =
     (if name X = ''Any'' \<or> variant_of X = VPromise \<or> variant_of X = VNullable
         \<or> (case X of IdlUnionType ms \<Rightarrow> contains_nullable_member ms | _ \<Rightarrow> False)
      then Inl ValueError
      else Inr (IdlNullableType X))
   \<and> get_nested_type (IdlNullableType X) = Some X
   \<and> (name X = ''Any'') = named_any X"
  by (cases X)
     (simp_all add: IdlNullableType_init_def count_pos_iff [symmetric] name_Any_iff [symmetric])

text \<open>The three constructions the specification lists as failing, and one that succeeds.\<close>

theorem nullable_construction_witness:
  "IdlNullableType_init (IdlType ''any'') = Inl ValueError
   \<and> IdlNullableType_init (IdlNullableType (IdlType ''long'')) = Inl ValueError
   \<and> IdlNullableType_init
        (IdlUnionType [IdlNullableType (IdlType ''long''), IdlType ''short'']) = Inl ValueError
   \<and> IdlNullableType_init (IdlType ''long'') = Inr (IdlNullableType (IdlType ''long''))"
  using nullable_construction [of "IdlType ''any''"]
    nullable_construction [of "IdlNullableType (IdlType ''long'')"]
    nullable_construction [of "IdlUnionType [IdlNullableType (IdlType ''long''), IdlType ''short'']"]
    nullable_construction [of "IdlType ''long''"]
  by (simp add: type_name_def TYPE_NAMES_def)

text \<open>
  C2 as stated fails. \<^verbatim>\<open>IdlAnnotatedType(IdlType('any'), {})\<close> is constructed without
  error; it is an annotated type, not \<^verbatim>\<open>==\<close> to \<^verbatim>\<open>IdlType('any')\<close>, and neither a
  promise, a nullable nor a union, yet the nullable type around it is refused. The same
  holds for the nominal type \<^verbatim>\<open>IdlType('Any')\<close>.
\<close>

theorem nullable_of_annotated_any_fails:
  "IdlAnnotatedType_init (IdlType ''any'') [] = Inr (IdlAnnotatedType (IdlType ''any'') [])
   \<and> variant_of (IdlAnnotatedType (IdlType ''any'') []) = VAnnotated
   \<and> \<not> idl_eq (IdlAnnotatedType (IdlType ''any'') []) (IdlType ''any'')
   \<and> \<not> idl_eq (IdlType ''any'') (IdlAnnotatedType (IdlType ''any'') [])
   \<and> IdlNullableType_init (IdlAnnotatedType (IdlType ''any'') []) = Inl ValueError
   \<and> variant_of (IdlType ''Any'') = VNamed
   \<and> \<not> idl_eq (IdlType ''Any'') (IdlType ''any'')
   \<and> IdlNullableType_init (IdlType ''Any'') = Inl ValueError"
  by (simp add: IdlAnnotatedType_init_def IdlNullableType_init_def type_name_def TYPE_NAMES_def)

text \<open>
  C3. On the empty list the construction of a union fails. On a non-empty list it
  succeeds, and the members of the result are drawn from the list given, are
  deduplicated (every element given is merged into a member with the same hash that is
  \<^verbatim>\<open>==\<close> to it, and no two members are so related) and are sorted by name; the name
  of the union is built from the names of these members in this order. For two lists
  with the same elements in any order, and for any hash function, the two unions have the
  same list of member names, the same name, and are \<^verbatim>\<open>==\<close>.
\<close>

theorem union_name_order_independent:
  assumes "mset xs = mset ys"
  shows "(xs = [] \<longrightarrow> IdlUnionType_init H xs = Inl AssertionError
                     \<and> IdlUnionType_init H ys = Inl AssertionError)
       \<and> (xs \<noteq> [] \<longrightarrow>
            (\<exists>ms ns. IdlUnionType_init H xs = Inr (IdlUnionType ms)
               \<and> IdlUnionType_init H ys = Inr (IdlUnionType ns)
               \<and> set ms \<subseteq> set xs
               \<and> (\<forall>x\<in>set xs. \<exists>m\<in>set ms. same_entry H m x)
               \<and> (\<forall>i j. i < j \<and> j < length ms \<longrightarrow> \<not> same_entry H (ms ! i) (ms ! j))
               \<and> sorted (map name ms)
               \<and> name (IdlUnionType ms) = ''Union('' @ join '', '' (map name ms) @ '')''
               \<and> map name ns = map name ms
               \<and> name (IdlUnionType ns) = name (IdlUnionType ms)
               \<and> idl_eq (IdlUnionType ms) (IdlUnionType ns)))"
proof (intro conjI impI)
  assume e: "xs = []"
  with assms have "ys = []" by simp
  with e show "IdlUnionType_init H xs = Inl AssertionError"
    and "IdlUnionType_init H ys = Inl AssertionError"
    by (simp_all add: IdlUnionType_init_def py_set_Nil)
next
  assume ne: "xs \<noteq> []"
  with assms have ne': "ys \<noteq> []"
    by (metis mset_zero_iff)
  let ?ms = "sort_key name (py_set H xs)"
  let ?ns = "sort_key name (py_set H ys)"
  from ne have f1: "IdlUnionType_init H xs = Inr (IdlUnionType ?ms)"
    by (simp add: IdlUnionType_init_def py_set_Nil)
  from ne' have f2: "IdlUnionType_init H ys = Inr (IdlUnionType ?ns)"
    by (simp add: IdlUnionType_init_def py_set_Nil)
  have f3: "set ?ms \<subseteq> set xs"
    by (simp add: py_set_subset)
  have f4: "\<forall>x\<in>set xs. \<exists>m\<in>set ?ms. same_entry H m x"
    using py_set_covers [of _ xs H] by simp
  have f5: "\<forall>i j. i < j \<and> j < length ?ms \<longrightarrow> \<not> same_entry H (?ms ! i) (?ms ! j)"
    using sorted_py_set_apart [of _ _ H xs] by blast
  have f6: "sorted (map name ?ms)"
    by simp
  have f7: "name (IdlUnionType ?ms) = ''Union('' @ join '', '' (map name ?ms) @ '')''"
    by simp
  from assms have "map name ?ms = map name ?ns"
    by (rule sorted_member_names)
  then have f8: "map name ?ns = map name ?ms"
    by (rule sym)
  have f9: "name (IdlUnionType ?ns) = name (IdlUnionType ?ms)"
    by (simp add: f8)
  then have f10: "idl_eq (IdlUnionType ?ms) (IdlUnionType ?ns)"
    by simp
  show "\<exists>ms ns. IdlUnionType_init H xs = Inr (IdlUnionType ms)
               \<and> IdlUnionType_init H ys = Inr (IdlUnionType ns)
               \<and> set ms \<subseteq> set xs
               \<and> (\<forall>x\<in>set xs. \<exists>m\<in>set ms. same_entry H m x)
               \<and> (\<forall>i j. i < j \<and> j < length ms \<longrightarrow> \<not> same_entry H (ms ! i) (ms ! j))
               \<and> sorted (map name ms)
               \<and> name (IdlUnionType ms) = ''Union('' @ join '', '' (map name ms) @ '')''
               \<and> map name ns = map name ms
               \<and> name (IdlUnionType ns) = name (IdlUnionType ms)
               \<and> idl_eq (IdlUnionType ms) (IdlUnionType ns)"
    apply (rule exI [of _ ?ms])
    apply (rule exI [of _ ?ns])
    apply (intro conjI)
             apply (fact f1)
            apply (fact f2)
           apply (fact f3)
          apply (fact f4)
         apply (fact f5)
        apply (fact f6)
       apply (fact f7)
      apply (fact f8)
     apply (fact f9)
    apply (fact f10)
    done
qed

text \<open>
  Two orders of the members \<^verbatim>\<open>long\<close> and \<^verbatim>\<open>DOMString\<close>, with a hash function
  under which all hashes collide.
\<close>

theorem union_name_order_independent_witness:
  "mset [IdlType ''long'', IdlType ''DOMString''] = mset [IdlType ''DOMString'', IdlType ''long'']
   \<and> (\<exists>ms ns. IdlUnionType_init (\<lambda>_. 0) [IdlType ''long'', IdlType ''DOMString'']
              = Inr (IdlUnionType ms)
            \<and> IdlUnionType_init (\<lambda>_. 0) [IdlType ''DOMString'', IdlType ''long'']
              = Inr (IdlUnionType ns)
            \<and> sorted (map name ms)
            \<and> map name ns = map name ms
            \<and> idl_eq (IdlUnionType ms) (IdlUnionType ns))"
proof -
  have h: "mset [IdlType ''long'', IdlType ''DOMString'']
             = mset [IdlType ''DOMString'', IdlType ''long'']"
    by (simp add: add_mset_commute)
  have ne: "[IdlType ''long'', IdlType ''DOMString''] \<noteq> []"
    by simp
  from union_name_order_independent [OF h, of "\<lambda>_. 0"] ne
  obtain ms ns
    where "IdlUnionType_init (\<lambda>_. 0) [IdlType ''long'', IdlType ''DOMString'']
             = Inr (IdlUnionType ms)"
      and "IdlUnionType_init (\<lambda>_. 0) [IdlType ''DOMString'', IdlType ''long'']
             = Inr (IdlUnionType ns)"
      and "sorted (map name ms)"
      and "map name ns = map name ms"
      and "idl_eq (IdlUnionType ms) (IdlUnionType ns)"
    by blast
  with h show ?thesis by blast
qed

text \<open>
  A union is deduplicated and sorted: \<^verbatim>\<open>IdlUnionType([long, DOMString, long])\<close>
  has the members \<^verbatim>\<open>long\<close> and \<^verbatim>\<open>DOMString\<close> in the order of their names
  \<open>Long\<close>, \<open>String\<close>.
\<close>

lemma union_example:
  "IdlUnionType_init (\<lambda>_. 0) [IdlType ''long'', IdlType ''DOMString'', IdlType ''long'']
     = Inr (IdlUnionType [IdlType ''long'', IdlType ''DOMString''])
   \<and> name (IdlUnionType [IdlType ''long'', IdlType ''DOMString'']) = ''Union(Long, String)''"
  by code_simp

section \<open>Claims about the type reductions\<close>

text \<open>
  C9 fails on the code. The reduction of a frozen-array node with element type
  \<^verbatim>\<open>long\<close> returns an \<open>IdlSequenceType\<close>, named \<open>Sequence(Long)\<close>, which is not
  \<^verbatim>\<open>==\<close> to the frozen array of \<^verbatim>\<open>long\<close>; and the reduction of a sequence node
  raises \<^verbatim>\<open>TypeError\<close>. Only the observable-array reduction builds its own class.
\<close>

theorem forzen_array_type_builds_sequence:
  "forzen_array_type [TypeNode (IdlType ''long'')] = RType (IdlSequenceType (IdlType ''long''))
   \<and> name (IdlSequenceType (IdlType ''long'')) = ''Sequence(Long)''
   \<and> name (IdlFrozenArrayType (IdlType ''long'')) = ''FrozenArray(Long)''
   \<and> \<not> idl_eq (IdlSequenceType (IdlType ''long'')) (IdlFrozenArrayType (IdlType ''long''))
   \<and> sequence_type [TypeNode (IdlType ''long'')] = Inl TypeError
   \<and> observable_array_type [TypeNode (IdlType ''long'')]
       = RType (IdlObservableArrayType (IdlType ''long''))"
  by (simp add: forzen_array_type_def sequence_type_def observable_array_type_def
      type_name_def TYPE_NAMES_def)

section \<open>Claims about the extended-attribute store\<close>

lemma map_of_dict_set: "map_of (dict_set d k v) k = Some v"
  by (induction d) auto

lemma dict_get_list_dict_set: "dict_get_list (dict_set d k v) k = v"
  by (simp add: dict_get_list_def map_of_dict_set)

text \<open>
  The five buckets whose getter returns what it looks up: after an add the getter gives
  the value stored, and on a store to which nothing was added it gives the empty default.
\<close>

lemma extattr_get_after_add:
  "extattr_has_identifier (extattr_add_identifier s k) k"
  "extattr_get_arguments (extattr_add_arguments s k args) k = args"
  "extattr_get_identifier_value (extattr_add_identifier_pair s k v) k = Some v"
  "extattr_get_identifier_list (extattr_add_identifier_list s k vs) k = vs"
  "extattr_get_string_literal_list (extattr_add_string_literal_list s k vs) k = vs"
  by (cases s; simp add: extattr_has_identifier_def extattr_get_arguments_def
      extattr_get_identifier_value_def extattr_get_identifier_list_def
      extattr_get_string_literal_list_def map_of_dict_set dict_get_list_dict_set)+

lemma extattr_get_absent:
  "\<not> extattr_has_identifier WithExtendedAttributes_init k"
  "extattr_get_arguments WithExtendedAttributes_init k = []"
  "extattr_get_named_arguments WithExtendedAttributes_init k = None"
  "extattr_get_identifier_value WithExtendedAttributes_init k = None"
  "extattr_get_identifier_list WithExtendedAttributes_init k = []"
  "extattr_get_string_literal WithExtendedAttributes_init k = None"
  "extattr_get_string_literal_list WithExtendedAttributes_init k = []"
  by (simp_all add: WithExtendedAttributes_init_def extattr_has_identifier_def
      extattr_get_arguments_def extattr_get_named_arguments_def
      extattr_get_identifier_value_def extattr_get_identifier_list_def
      extattr_get_string_literal_def extattr_get_string_literal_list_def dict_get_list_def)

text \<open>
  C4 fails on the code for two of the seven buckets. After
  \<^verbatim>\<open>extattr_add_string_literal('LegacyFactory', 'X')\<close> the literal is in the store
  (between quotes) and \<^verbatim>\<open>extattr_get_string_literal('LegacyFactory')\<close> is
  \<^verbatim>\<open>None\<close>; after \<^verbatim>\<open>extattr_add_named_arguments('NamedConstructor', 'Image', [])\<close>
  the pair is in the store and \<^verbatim>\<open>extattr_get_named_arguments('NamedConstructor')\<close> is
  \<^verbatim>\<open>None\<close>.
\<close>

theorem extattr_getters_discard_value:
  "map_of (string_literals
       (extattr_add_string_literal (WithExtendedAttributes_init :: idl_argument ext_store)
          ''LegacyFactory'' ''X'' True)) ''LegacyFactory''
     = Some ([CHR 0x22] @ ''X'' @ [CHR 0x22])
   \<and> extattr_get_string_literal
       (extattr_add_string_literal (WithExtendedAttributes_init :: idl_argument ext_store)
          ''LegacyFactory'' ''X'' True) ''LegacyFactory''
     = None
   \<and> map_of (named_arguments
       (extattr_add_named_arguments (WithExtendedAttributes_init :: idl_argument ext_store)
          ''NamedConstructor'' ''Image'' [])) ''NamedConstructor''
     = Some (''Image'', [])
   \<and> extattr_get_named_arguments
       (extattr_add_named_arguments (WithExtendedAttributes_init :: idl_argument ext_store)
          ''NamedConstructor'' ''Image'' []) ''NamedConstructor''
     = None"
  by (simp add: WithExtendedAttributes_init_def extattr_get_string_literal_def
      extattr_get_named_arguments_def)

section \<open>Claims about interfaces\<close>

text \<open>
  C10. After construction the type of an interface is the nominal type of its name, and
  the name is the one given; \<^verbatim>\<open>set_name(n)\<close> with a non-empty string assigns both
  fields together; with the empty string or a value that is not a string it changes
  nothing. So \<^verbatim>\<open>set_name\<close> keeps the coupling, whatever its argument.
\<close>

theorem interface_name_type_coupling:
  "name_type_coupled (IdlInterface_init nm s m p d)
   \<and> def_name (IdlInterface_init nm s m p d) = nm
   \<and> (n \<noteq> [] \<longrightarrow> def_name (set_name (PyStr n) i) = n
                  \<and> def_idl_type (set_name (PyStr n) i) = IdlType n)
   \<and> set_name (PyStr []) i = i
   \<and> ((\<forall>s. v \<noteq> PyStr s) \<longrightarrow> set_name v i = i)
   \<and> (name_type_coupled i \<longrightarrow> name_type_coupled (set_name v i))"
  by (cases v) (simp_all add: IdlInterface_init_def set_name_def name_type_coupled_def)

theorem interface_name_type_coupling_witness:
  "def_name (set_name (PyStr ''Foo'') (IdlInterface_init ''Bar'' False False ParentNone False))
     = ''Foo''
   \<and> def_idl_type (set_name (PyStr ''Foo'') (IdlInterface_init ''Bar'' False False ParentNone False))
     = IdlType ''Foo''
   \<and> set_name (PyInt 3) (IdlInterface_init ''Bar'' False False ParentNone False)
     = IdlInterface_init ''Bar'' False False ParentNone False
   \<and> name_type_coupled
       (set_name (PyInt 3) (IdlInterface_init ''Bar'' False False ParentNone False))"
  using interface_name_type_coupling
    [of "''Bar''" False False ParentNone False "''Foo''"
        "IdlInterface_init ''Bar'' False False ParentNone False" "PyInt 3"]
  by simp

lemma subclass_loop_no_match:
  "resolved_chain h i rs e \<Longrightarrow> \<not> list_ex (matches h other) rs \<Longrightarrow>
     subclass_loop h other i = subclass_loop h other e"
proof (induction rs arbitrary: i)
  case Nil
  then show ?case by simp
next
  case (Cons r rs)
  from Cons.prems have i: "i = ParentObject r"
    and c: "resolved_chain h (parent (holders h r)) rs e"
    and m: "\<not> matches h other r" and ms: "\<not> list_ex (matches h other) rs"
    by simp_all
  have "subclass_loop h other i = subclass_loop h other (parent (holders h r))"
    by (subst subclass_loop.simps) (simp add: i m)
  also have "\<dots> = subclass_loop h other e"
    using c ms by (rule Cons.IH)
  finally show ?case .
qed

lemma subclass_loop_match:
  "resolved_chain h i rs e \<Longrightarrow> list_ex (matches h other) rs \<Longrightarrow>
     subclass_loop h other i = Some (Inr True)"
proof (induction rs arbitrary: i)
  case Nil
  then show ?case by simp
next
  case (Cons r rs)
  from Cons.prems(1) have i: "i = ParentObject r"
    and c: "resolved_chain h (parent (holders h r)) rs e"
    by simp_all
  show ?case
  proof (cases "matches h other r")
    case True
    then show ?thesis
      by (subst subclass_loop.simps) (simp add: i)
  next
    case False
    with Cons.prems(2) have ms: "list_ex (matches h other) rs" by simp
    have "subclass_loop h other i = subclass_loop h other (parent (holders h r))"
      by (subst subclass_loop.simps) (simp add: i False)
    also have "\<dots> = Some (Inr True)"
      using c ms by (rule Cons.IH)
    finally show ?thesis .
  qed
qed

lemma subclass_loop_end:
  "subclass_loop h other ParentNone = Some (Inr False)"
  "subclass_loop h other (ParentName []) = Some (Inr False)"
  "s \<noteq> [] \<Longrightarrow> subclass_loop h other (ParentName s) = Some (Inl AssertionError)"
  by (subst subclass_loop.simps, simp)+

text \<open>
  C8 (as amended). Let the parents of an interface be resolved objects \<open>rs\<close>, in order,
  up to a last parent reference \<open>e\<close>. If one of \<open>rs\<close> matches \<open>other\<close> (by name for a
  string, by identity for an interface) the call returns true. If none does, the call
  returns false when \<open>e\<close> is \<^verbatim>\<open>None\<close> or the empty string, and fails with
  \<^verbatim>\<open>AssertionError\<close> when \<open>e\<close> is a non-empty bare name.
\<close>

theorem is_subclass_of_resolved_chain:
  assumes "resolved_chain h (parent (holders h self)) rs e"
  shows "(list_ex (matches h other) rs \<longrightarrow> is_subclass_of h self other = Some (Inr True))
       \<and> (\<not> list_ex (matches h other) rs \<and> (e = ParentNone \<or> e = ParentName [])
            \<longrightarrow> is_subclass_of h self other = Some (Inr False))
       \<and> (\<not> list_ex (matches h other) rs \<and> (\<exists>s. s \<noteq> [] \<and> e = ParentName s)
            \<longrightarrow> is_subclass_of h self other = Some (Inl AssertionError))"
proof (intro conjI impI)
  assume "list_ex (matches h other) rs"
  with assms show "is_subclass_of h self other = Some (Inr True)"
    unfolding is_subclass_of_def by (rule subclass_loop_match)
next
  assume a: "\<not> list_ex (matches h other) rs \<and> (e = ParentNone \<or> e = ParentName [])"
  then have nm: "\<not> list_ex (matches h other) rs" by simp
  from assms nm have "is_subclass_of h self other = subclass_loop h other e"
    unfolding is_subclass_of_def by (rule subclass_loop_no_match)
  with a show "is_subclass_of h self other = Some (Inr False)"
    by (auto simp: subclass_loop_end)
next
  assume a: "\<not> list_ex (matches h other) rs \<and> (\<exists>s. s \<noteq> [] \<and> e = ParentName s)"
  then have nm: "\<not> list_ex (matches h other) rs" by simp
  from assms nm have "is_subclass_of h self other = subclass_loop h other e"
    unfolding is_subclass_of_def by (rule subclass_loop_no_match)
  with a show "is_subclass_of h self other = Some (Inl AssertionError)"
    by (auto simp: subclass_loop_end)
qed

lemma abc_heap_holders:
  "holders abc_heap 0 = IdlInterface_init ''A'' False False ParentNone False"
  "holders abc_heap (Suc 0) = IdlInterface_init ''B'' False False (ParentObject 0) False"
  "holders abc_heap 2 = IdlInterface_init ''C'' False False (ParentObject 1) False"
  by (simp_all add: abc_heap_def new_interface_def empty_heap_def)

lemma parent_init: "parent (IdlInterface_init nm s m p d) = p"
  by (simp add: IdlInterface_init_def set_name_def)

lemma def_name_init: "def_name (IdlInterface_init nm s m p d) = nm"
  by (simp add: IdlInterface_init_def set_name_def)

text \<open>
  The example of the specification: with \<open>A\<close>, \<open>B\<close>, \<open>C\<close> resolved,
  \<^verbatim>\<open>C.is_subclass_of(A)\<close> is true, by object and by name, and
  \<^verbatim>\<open>A.is_subclass_of(C)\<close> is false.
\<close>

theorem is_subclass_of_resolved_chain_witness:
  "is_subclass_of abc_heap 2 (OtherInterface 0) = Some (Inr True)
   \<and> is_subclass_of abc_heap 2 (OtherName ''A'') = Some (Inr True)
   \<and> is_subclass_of abc_heap 0 (OtherInterface 2) = Some (Inr False)
   \<and> is_subclass_of unresolved_heap 0 (OtherName ''C'') = Some (Inl AssertionError)"
proof -
  have c: "resolved_chain abc_heap (parent (holders abc_heap 2)) [1, 0] ParentNone"
    by (simp add: abc_heap_holders parent_init)
  have a: "resolved_chain abc_heap (parent (holders abc_heap 0)) [] ParentNone"
    by (simp add: abc_heap_holders parent_init)
  have u: "resolved_chain unresolved_heap (parent (holders unresolved_heap 0)) [] (ParentName ''A'')"
    by (simp add: unresolved_heap_def new_interface_def empty_heap_def parent_init)
  from is_subclass_of_resolved_chain [OF c, of "OtherInterface 0"]
    is_subclass_of_resolved_chain [OF c, of "OtherName ''A''"]
    is_subclass_of_resolved_chain [OF a, of "OtherInterface 2"]
    is_subclass_of_resolved_chain [OF u, of "OtherName ''C''"]
  show ?thesis
    by (simp add: matches_def abc_heap_holders def_name_init)
qed

text \<open>
  C8 as stated fails: with the parent of \<open>B\<close> the unresolved bare name \<open>A\<close>,
  \<^verbatim>\<open>B.is_subclass_of('A')\<close> does not return false; the assertion fails.
\<close>

theorem is_subclass_of_unresolved_fails:
  "is_subclass_of unresolved_heap 0 (OtherName ''A'') = Some (Inl AssertionError)
   \<and> is_subclass_of unresolved_heap 0 (OtherName ''A'') \<noteq> Some (Inr False)"
proof -
  have "parent (holders unresolved_heap 0) = ParentName ''A''"
    by (simp add: unresolved_heap_def new_interface_def empty_heap_def parent_init)
  then have "is_subclass_of unresolved_heap 0 (OtherName ''A'') = Some (Inl AssertionError)"
    by (simp add: is_subclass_of_def subclass_loop_end)
  then show ?thesis by simp
qed

section \<open>Claims about members and their holders\<close>

lemma set_owner_partial: "is_partial (holders h ow) \<Longrightarrow> set_owner h cur (Some ow) = cur"
  by (simp add: set_owner_def)

lemma set_owner_None: "set_owner h cur None = cur"
  by (simp add: set_owner_def)

lemma IdlAttribute_copy_owner: "IdlAttribute_copy a = Inr c \<Longrightarrow> attr_owner c = None"
  by (auto simp: IdlAttribute_copy_def IdlAttribute_init_def Let_def split: sum.splits)

lemma IdlOperation_copy_owner: "IdlOperation_copy p = Inr c \<Longrightarrow> op_owner c = None"
  by (auto simp: IdlOperation_copy_def IdlOperation_init_def Let_def split: sum.splits)

lemma add_attribute_Some:
  assumes "add_attribute h self a = Inr (h', Some r)"
  shows "r = next_ref h"
    and "attr_owner (attrs h' r) = set_owner h None (Some self)"
    and "x \<noteq> r \<Longrightarrow> attrs h' x = attrs h x"
    and "attributes_list (holders h' self) = attributes_list (holders h self) @ [r]"
  using assms
  by (auto simp: add_attribute_def Let_def split: if_splits sum.splits
      dest: IdlAttribute_copy_owner)

lemma WithOperations_add_operation_Some:
  assumes "WithOperations_add_operation h self p = Inr (h', Some r)"
  shows "r = next_ref h"
    and "op_owner (ops h' r) = set_owner h None (Some self)"
    and "x \<noteq> r \<Longrightarrow> ops h' x = ops h x"
    and "operations_list (holders h' self) = operations_list (holders h self) @ [r]"
  using assms
  by (auto simp: WithOperations_add_operation_def Let_def split: if_splits sum.splits
      dest: IdlOperation_copy_owner)

lemma IdlInterface_add_operation_True:
  assumes "IdlInterface_add_operation h self p = Inr (h3, True)"
  shows "\<exists>h1 r. WithOperations_add_operation h self p = Inr (h1, Some r)
           \<and> op_owner (ops h3 r) = op_owner (ops h1 r)
           \<and> operations_list (holders h3 self) = operations_list (holders h1 self)"
  using assms
  by (auto simp: IdlInterface_add_operation_def Let_def
      split: if_splits sum.splits prod.splits option.splits)

lemma add_constant_partial:
  "is_partial (holders h self) \<Longrightarrow> csts (add_constant h self c) = csts h"
  by (simp add: add_constant_def Let_def set_owner_partial)

text \<open>
  C7. Let the holder be partial. An attribute or an operation that is inserted is stored
  as a new object whose owner is \<^verbatim>\<open>None\<close>, and no other attribute or operation
  changes; this holds for \<^verbatim>\<open>WithOperations.add_operation\<close> (a namespace) and for
  \<^verbatim>\<open>IdlInterface.add_operation\<close>. The owner of every constant, the inserted one
  included, is what it was before \<^verbatim>\<open>add_constant\<close>.
\<close>

theorem partial_holder_never_owner:
  assumes "is_partial (holders h self)"
  shows "(add_attribute h self a = Inr (h1, Some r) \<longrightarrow>
            attr_owner (attrs h1 r) = None \<and> (\<forall>x. x \<noteq> r \<longrightarrow> attrs h1 x = attrs h x))
       \<and> (WithOperations_add_operation h self p = Inr (h2, Some r') \<longrightarrow>
            op_owner (ops h2 r') = None \<and> (\<forall>x. x \<noteq> r' \<longrightarrow> ops h2 x = ops h x))
       \<and> (IdlInterface_add_operation h self p = Inr (h3, True) \<longrightarrow>
            op_owner (ops h3 (last (operations_list (holders h3 self)))) = None)
       \<and> (\<forall>x. const_owner (csts (add_constant h self c) x) = const_owner (csts h x))"
proof (intro conjI impI allI)
  assume a: "add_attribute h self a = Inr (h1, Some r)"
  from add_attribute_Some(2) [OF a] assms show "attr_owner (attrs h1 r) = None"
    by (simp add: set_owner_partial)
  fix x assume "x \<noteq> r"
  then show "attrs h1 x = attrs h x" by (rule add_attribute_Some(3) [OF a])
next
  assume a: "WithOperations_add_operation h self p = Inr (h2, Some r')"
  from WithOperations_add_operation_Some(2) [OF a] assms show "op_owner (ops h2 r') = None"
    by (simp add: set_owner_partial)
  fix x assume "x \<noteq> r'"
  then show "ops h2 x = ops h x" by (rule WithOperations_add_operation_Some(3) [OF a])
next
  assume "IdlInterface_add_operation h self p = Inr (h3, True)"
  then obtain k q where w: "WithOperations_add_operation h self p = Inr (k, Some q)"
    and o: "op_owner (ops h3 q) = op_owner (ops k q)"
    and l: "operations_list (holders h3 self) = operations_list (holders k self)"
    using IdlInterface_add_operation_True by blast
  from WithOperations_add_operation_Some(4) [OF w] l
  have "last (operations_list (holders h3 self)) = q" by simp
  moreover from WithOperations_add_operation_Some(2) [OF w] assms have "op_owner (ops k q) = None"
    by (simp add: set_owner_partial)
  ultimately show "op_owner (ops h3 (last (operations_list (holders h3 self)))) = None"
    using o by simp
next
  fix x
  from assms show "const_owner (csts (add_constant h self c) x) = const_owner (csts h x)"
    by (simp add: add_constant_partial)
qed

lemma foo_heap_simps:
  "holders foo_heap 0 = IdlInterface_init ''Foo'' False False ParentNone False"
  "attrs foo_heap (Suc 0) = IdlAttribute_init ''x'' (IdlType ''long'') False False False False"
  "ops foo_heap 2 = IdlOperation_init ''bar'' (Some (IdlType ''long'')) [] False False False
     False False False False False"
  "csts foo_heap 3 = IdlConstant_init ''K'' (IdlType ''long'') (PyInt 1)"
  "next_ref foo_heap = 4"
  by (simp_all add: foo_heap_def new_constant_def new_operation_def new_attribute_def
      new_interface_def empty_heap_def)

lemma partial_foo_heap_simps:
  "holders partial_foo_heap 0
     = (IdlInterface_init ''Foo'' False False ParentNone False)\<lparr>is_partial := True\<rparr>"
  "attrs partial_foo_heap = attrs foo_heap"
  "ops partial_foo_heap = ops foo_heap"
  "csts partial_foo_heap = csts foo_heap"
  "next_ref partial_foo_heap = 4"
  by (simp_all add: partial_foo_heap_def foo_heap_simps)

lemma copy_fresh_attribute:
  "IdlAttribute_copy (IdlAttribute_init nm t ro st sf inh) = Inr (IdlAttribute_init nm t ro st sf inh)"
  by (simp add: IdlAttribute_copy_def IdlAttribute_init_def WithExtendedAttributes_init_def)

lemma copy_fresh_operation:
  "nm \<noteq> [] \<Longrightarrow>
   IdlOperation_copy (IdlOperation_init nm t [] c st g se d sf lc as)
     = Inr (IdlOperation_init nm t [] c st g se d sf lc as)"
  by (simp add: IdlOperation_copy_def IdlOperation_init_def WithExtendedAttributes_init_def
      op_name_def arguments_dict_of_def)

lemma init_fields:
  "attributes_dict (IdlInterface_init nm s m p d) = Map.empty"
  "attributes_list (IdlInterface_init nm s m p d) = []"
  "attributes_typedict (IdlInterface_init nm s m p d) = Map.empty"
  "mutable_attributes (IdlInterface_init nm s m p d) = []"
  "readonly_attributes (IdlInterface_init nm s m p d) = []"
  "operations_list (IdlInterface_init nm s m p d) = []"
  "operations_dict (IdlInterface_init nm s m p d) = Map.empty"
  "constants_list (IdlInterface_init nm s m p d) = []"
  "constants_dict (IdlInterface_init nm s m p d) = Map.empty"
  "is_partial (IdlInterface_init nm s m p d) = False"
  by (simp_all add: IdlInterface_init_def set_name_def)

lemma attr_init_fields:
  "attr_name (IdlAttribute_init nm t ro st sf inh) = nm"
  "attr_idl_type (IdlAttribute_init nm t ro st sf inh) = t"
  "attr_owner (IdlAttribute_init nm t ro st sf inh) = None"
  "attr_is_readonly (IdlAttribute_init nm t ro st sf inh) = ro"
  "attr_is_event_handler (IdlAttribute_init nm t ro st sf inh) = (name t = ''EventHandler'')"
  by (simp_all add: IdlAttribute_init_def)

lemma op_init_fields:
  "op_owner (IdlOperation_init nm t args c st g se d sf lc as) = None"
  "op_idl_type (IdlOperation_init nm t args c st g se d sf lc as) = t"
  "op_is_constructor (IdlOperation_init nm t args c st g se d sf lc as) = c"
  "op_is_getter (IdlOperation_init nm t args c st g se d sf lc as) = g"
  "op_is_setter (IdlOperation_init nm t args c st g se d sf lc as) = se"
  "op_is_deleter (IdlOperation_init nm t args c st g se d sf lc as) = d"
  "nm \<noteq> [] \<Longrightarrow> op_name (IdlOperation_init nm t args c st g se d sf lc as) = Inr nm"
  by (simp_all add: IdlOperation_init_def op_name_def)

lemma op_name_owner_update: "op_name (p\<lparr>op_owner := ow\<rparr>) = op_name p"
  by (simp add: op_name_def)

lemma add_attribute_foo:
  "\<exists>h1. add_attribute foo_heap 0 1 = Inr (h1, Some 4)
     \<and> attributes_list (holders h1 0) = [4]
     \<and> attr_owner (attrs h1 4) = Some 0
     \<and> attrs h1 1 = attrs foo_heap 1"
  by (simp add: add_attribute_def Let_def foo_heap_simps init_fields copy_fresh_attribute
      set_owner_def attr_init_fields type_name_def TYPE_NAMES_def)

lemma add_attribute_partial_foo:
  "\<exists>h1. add_attribute partial_foo_heap 0 1 = Inr (h1, Some 4)"
  by (simp add: add_attribute_def Let_def partial_foo_heap_simps foo_heap_simps init_fields
      copy_fresh_attribute attr_init_fields type_name_def TYPE_NAMES_def)

lemma add_operation_partial_foo:
  "\<exists>h2. WithOperations_add_operation partial_foo_heap 0 2 = Inr (h2, Some 4)"
  by (simp add: WithOperations_add_operation_def Let_def partial_foo_heap_simps foo_heap_simps
      init_fields copy_fresh_operation has_operation_def op_init_fields op_name_owner_update)

lemma interface_add_operation_partial_foo:
  "\<exists>h3. IdlInterface_add_operation partial_foo_heap 0 2 = Inr (h3, True)"
  by (simp add: IdlInterface_add_operation_def WithOperations_add_operation_def Let_def
      partial_foo_heap_simps foo_heap_simps init_fields copy_fresh_operation has_operation_def
      op_init_fields op_name_owner_update)

text \<open>
  On the partial interface \<open>Foo\<close>: the attribute, the operation (by either method) and the
  constant are inserted, and the owner of what is stored is \<^verbatim>\<open>None\<close>.
\<close>

theorem partial_holder_never_owner_witness:
  "is_partial (holders partial_foo_heap 0)
   \<and> (\<exists>h1. add_attribute partial_foo_heap 0 1 = Inr (h1, Some 4)
          \<and> attr_owner (attrs h1 4) = None)
   \<and> (\<exists>h2. WithOperations_add_operation partial_foo_heap 0 2 = Inr (h2, Some 4)
          \<and> op_owner (ops h2 4) = None)
   \<and> (\<exists>h3. IdlInterface_add_operation partial_foo_heap 0 2 = Inr (h3, True)
          \<and> op_owner (ops h3 (last (operations_list (holders h3 0)))) = None)
   \<and> const_owner (csts (add_constant partial_foo_heap 0 3) 3) = None"
proof -
  have p: "is_partial (holders partial_foo_heap 0)"
    by (simp add: partial_foo_heap_simps)
  obtain h1 where a: "add_attribute partial_foo_heap 0 1 = Inr (h1, Some 4)"
    using add_attribute_partial_foo by blast
  obtain h2 where b: "WithOperations_add_operation partial_foo_heap 0 2 = Inr (h2, Some 4)"
    using add_operation_partial_foo by blast
  obtain h3 where c: "IdlInterface_add_operation partial_foo_heap 0 2 = Inr (h3, True)"
    using interface_add_operation_partial_foo by blast
  have k: "const_owner (csts partial_foo_heap 3) = None"
    by (simp add: partial_foo_heap_simps foo_heap_simps IdlConstant_init_def)
  from partial_holder_never_owner [OF p, of 1 h1 4 2 h2 4 h3 3] a b c k p
  show ?thesis by simp
qed

subsection \<open>Insertion of a constant\<close>

text \<open>
  What the sibling methods do: an attribute or operation that is inserted is stored as a
  new object, and the caller's object (any object already allocated) is unchanged.
\<close>

lemma add_attribute_stores_copy:
  assumes "add_attribute h self a = Inr (h', Some r)" and "a < next_ref h"
  shows "r \<noteq> a \<and> attrs h' a = attrs h a \<and> last (attributes_list (holders h' self)) = r"
  using add_attribute_Some [OF assms(1)] assms(2) by simp

lemma add_operation_stores_copy:
  assumes "WithOperations_add_operation h self p = Inr (h', Some r)" and "p < next_ref h"
  shows "r \<noteq> p \<and> ops h' p = ops h p \<and> last (operations_list (holders h' self)) = r"
  using WithOperations_add_operation_Some [OF assms(1)] assms(2) by simp

text \<open>
  C5 fails on the code for constants. On the interface \<open>Foo\<close> (not partial),
  \<^verbatim>\<open>add_constant\<close> stores the caller's own object (address 3) and changes its owner
  from \<^verbatim>\<open>None\<close> to \<open>Foo\<close>; \<^verbatim>\<open>add_attribute\<close> on the same interface stores a new
  object (address 4) and leaves the caller's attribute (address 1) as it was.
\<close>

theorem add_constant_stores_caller_instance:
  "constants_list (holders (add_constant foo_heap 0 3) 0) = [3]
   \<and> constants_dict (holders (add_constant foo_heap 0 3) 0) ''K'' = Some 3
   \<and> const_owner (csts foo_heap 3) = None
   \<and> const_owner (csts (add_constant foo_heap 0 3) 3) = Some 0
   \<and> (\<exists>h1. add_attribute foo_heap 0 1 = Inr (h1, Some 4)
          \<and> attributes_list (holders h1 0) = [4]
          \<and> attr_owner (attrs h1 4) = Some 0
          \<and> attrs h1 1 = attrs foo_heap 1)"
proof -
  have "constants_list (holders (add_constant foo_heap 0 3) 0) = [3]
        \<and> constants_dict (holders (add_constant foo_heap 0 3) 0) ''K'' = Some 3
        \<and> const_owner (csts foo_heap 3) = None
        \<and> const_owner (csts (add_constant foo_heap 0 3) 3) = Some 0"
    by (simp add: add_constant_def Let_def foo_heap_simps init_fields IdlConstant_init_def
        set_owner_def)
  with add_attribute_foo show ?thesis by simp
qed

subsection \<open>Removal of an attribute\<close>

text \<open>
  \<^verbatim>\<open>remove_attribute\<close> changes the owner of no attribute: its
  \<^verbatim>\<open>set_owner(None)\<close> returns at the test \<^verbatim>\<open>not owner\<close>.
\<close>

lemma remove_attribute_owner_unchanged:
  "remove_attribute h self x = Inr (h', res) \<Longrightarrow> attr_owner (attrs h' y) = attr_owner (attrs h y)"
  by (auto simp: remove_attribute_def Let_def set_owner_None
      split: option.splits sum.splits if_splits)

lemma remove_attribute_absent:
  "attributes_dict (holders h self) nm = None \<Longrightarrow> remove_attribute h self (ByName nm) = Inr (h, None)"
  by (simp add: remove_attribute_def Let_def)

text \<open>
  C6 fails on the code. On the interface \<open>Foo\<close> (not partial) the attribute \<open>x\<close> is
  inserted, which stores the object at address 4 with owner \<open>Foo\<close>; \<^verbatim>\<open>remove_attribute('x')\<close>
  returns that object and removes it from the list, the name index, the type index and
  the partition, but its owner is still \<open>Foo\<close>, not \<^verbatim>\<open>None\<close>.
\<close>

theorem remove_attribute_keeps_owner:
  "\<exists>h1 h2. add_attribute foo_heap 0 1 = Inr (h1, Some 4)
      \<and> attr_owner (attrs h1 4) = Some 0
      \<and> remove_attribute h1 0 (ByName ''x'') = Inr (h2, Some 4)
      \<and> attributes_list (holders h2 0) = []
      \<and> attributes_dict (holders h2 0) ''x'' = None
      \<and> attributes_typedict (holders h2 0) ''Long'' = Some []
      \<and> mutable_attributes (holders h2 0) = []
      \<and> attr_owner (attrs h2 4) = Some 0"
  by (simp add: add_attribute_def remove_attribute_def Let_def foo_heap_simps init_fields
      copy_fresh_attribute set_owner_def attr_init_fields setdefault_append_def
      type_name_def TYPE_NAMES_def IdlAttribute_eq_def same_as_def)

end
